theory Spec2Isabelle
  imports Complex_Main
begin

section \<open>The calendar widget (components/Calendar.tsx)\<close>

text \<open>
  A JavaScript \<open>Date\<close> is its time value (milliseconds since the epoch); the dates the
  calendar handles are the valid ones its cells construct. The local-time accessors
  \<open>getFullYear\<close>, \<open>getMonth\<close> and \<open>getDate\<close> depend on the time zone of the runtime,
  which is a parameter here: a function from the time value to the three local fields.
\<close>

datatype jsdate = Date (getTime: int)

type_synonym local_time = "int \<Rightarrow> int \<times> int \<times> int"

definition getFullYear :: "local_time \<Rightarrow> jsdate \<Rightarrow> int" where
  "getFullYear tz a = fst (tz (getTime a))"

definition getMonth :: "local_time \<Rightarrow> jsdate \<Rightarrow> int" where
  "getMonth tz a = fst (snd (tz (getTime a)))"

definition getDate :: "local_time \<Rightarrow> jsdate \<Rightarrow> int" where
  "getDate tz a = snd (snd (tz (getTime a)))"

definition isSameDay :: "local_time \<Rightarrow> jsdate \<Rightarrow> jsdate \<Rightarrow> bool" where
  "isSameDay tz a b \<longleftrightarrow>
     getFullYear tz a = getFullYear tz b \<and>
     getMonth tz a = getMonth tz b \<and>
     getDate tz a = getDate tz b"

text \<open>\<open>Array.prototype.findIndex\<close>: the first index whose element satisfies the
  predicate, \<open>-1\<close> when there is none.\<close>

fun findIndex_from :: "('a \<Rightarrow> bool) \<Rightarrow> 'a list \<Rightarrow> int \<Rightarrow> int" where
  "findIndex_from p [] i = -1"
| "findIndex_from p (x # xs) i = (if p x then i else findIndex_from p xs (i + 1))"

definition findIndex :: "('a \<Rightarrow> bool) \<Rightarrow> 'a list \<Rightarrow> int" where
  "findIndex p xs = findIndex_from p xs 0"

text \<open>\<open>Array.prototype.filter\<close> with a callback that receives the element and its index.\<close>

fun filter_from :: "('a \<Rightarrow> int \<Rightarrow> bool) \<Rightarrow> 'a list \<Rightarrow> int \<Rightarrow> 'a list" where
  "filter_from f [] i = []"
| "filter_from f (x # xs) i =
     (if f x i then x # filter_from f xs (i + 1) else filter_from f xs (i + 1))"

definition filter_indexed :: "('a \<Rightarrow> int \<Rightarrow> bool) \<Rightarrow> 'a list \<Rightarrow> 'a list" where
  "filter_indexed f xs = filter_from f xs 0"

text \<open>
  \<open>handleDateClick\<close>. The new array is sorted with the comparator
  \<open>a.getTime() - b.getTime()\<close>; \<open>Array.prototype.sort\<close> is stable, which for this
  comparator is the stable sort by the key \<open>getTime\<close>. The result is what the handler
  passes to \<open>onDateChange\<close>.
\<close>

definition handleDateClick :: "local_time \<Rightarrow> jsdate list \<Rightarrow> jsdate \<Rightarrow> jsdate list" where
  "handleDateClick tz selectedDates day =
     (let existingIndex = findIndex (\<lambda>d. isSameDay tz d day) selectedDates;
          newDates =
            (if existingIndex > -1
             then filter_indexed (\<lambda>_ index. index \<noteq> existingIndex) selectedDates
             else selectedDates @ [day])
      in sort_key getTime newDates)"

text \<open>No two entries of a selection fall on the same calendar day.\<close>

fun no_two_same_day :: "local_time \<Rightarrow> jsdate list \<Rightarrow> bool" where
  "no_two_same_day tz [] = True"
| "no_two_same_day tz (x # xs) =
     (list_all (\<lambda>y. \<not> isSameDay tz x y) xs \<and> no_two_same_day tz xs)"

definition selected :: "local_time \<Rightarrow> jsdate list \<Rightarrow> jsdate \<Rightarrow> bool" where
  "selected tz ds day = list_ex (\<lambda>d. isSameDay tz d day) ds"

text \<open>A concrete time zone for evaluation: UTC, with the day counted from the epoch
  (one "month" of one "year", which is all \<open>isSameDay\<close> needs to tell days apart).\<close>

definition utc_days :: local_time where
  "utc_days t = (1970, 0, 1 + t div 86400000)"

text \<open>The three local fields of a date, as one value: two dates are on the same day
  exactly when they agree on it.\<close>

definition day_key :: "local_time \<Rightarrow> jsdate \<Rightarrow> int \<times> int \<times> int" where
  "day_key tz d = tz (getTime d)"


section \<open>Python values and the external collaborators of the backend\<close>

text \<open>
  The backend is the Python of the implementation guide (notebooks 04 to 06 and api.py).
  A Python float is modelled by the rational number it denotes, or \<open>NaN\<close>; the rounding
  error of float addition is not modelled. Dictionaries with string keys (CSV rows,
  transactions, Qdrant payloads) are maps from keys to dynamically typed values.
\<close>

datatype pyfloat = NaN | Fl rat

fun fadd :: "pyfloat \<Rightarrow> pyfloat \<Rightarrow> pyfloat" where
  "fadd (Fl a) (Fl b) = Fl (a + b)"
| "fadd _ _ = NaN"

text \<open>Python's \<open>sum\<close>: a left fold of \<open>+\<close> that starts at \<open>0\<close>.\<close>

definition py_sum :: "pyfloat list \<Rightarrow> pyfloat" where
  "py_sum xs = foldl fadd (Fl 0) xs"

text \<open>\<open>round(x, 2)\<close>: to two decimals, ties to even.\<close>

definition round_half_even :: "rat \<Rightarrow> int" where
  "round_half_even x =
     (let f = \<lfloor>x\<rfloor>; d = x - of_int f
      in if d < 1 / 2 then f
         else if 1 / 2 < d then f + 1
         else if even f then f else f + 1)"

fun round2 :: "pyfloat \<Rightarrow> pyfloat" where
  "round2 NaN = NaN"
| "round2 (Fl x) = Fl (of_int (round_half_even (x * 100)) / 100)"

datatype pyval = PNone | PStr string | PNum pyfloat

type_synonym pydict = "string \<rightharpoonup> pyval"

datatype error = KeyError string | ValueError | TypeError

type_synonym vec = "rat list"

text \<open>
  What the code calls and does not define: the embedding model, the similarity score of
  the vector engine, the language model, and Python's conversions between floats and
  strings (\<open>str\<close>, the format \<open>:.2f\<close>, and \<open>float\<close> of a string, which raises
  \<open>ValueError\<close> where \<open>parse_float\<close> is \<open>None\<close>).
\<close>

record env =
  embed_query :: "string \<Rightarrow> vec"
  similarity :: "vec \<Rightarrow> vec \<Rightarrow> rat"
  llm_invoke :: "string \<Rightarrow> string"
  str_float :: "rat \<Rightarrow> string"
  fmt_2f :: "rat \<Rightarrow> string"
  parse_float :: "string \<Rightarrow> pyfloat option"

definition str_pyfloat :: "env \<Rightarrow> pyfloat \<Rightarrow> string" where
  "str_pyfloat e x = (case x of NaN \<Rightarrow> ''nan'' | Fl r \<Rightarrow> str_float e r)"

definition py_str :: "env \<Rightarrow> pyval \<Rightarrow> string" where
  "py_str e v = (case v of PNone \<Rightarrow> ''None'' | PStr s \<Rightarrow> s | PNum x \<Rightarrow> str_pyfloat e x)"

text \<open>\<open>float(d.get(key, 0))\<close>.\<close>

definition float_get :: "env \<Rightarrow> pydict \<Rightarrow> string \<Rightarrow> error + pyfloat" where
  "float_get e d key =
     (case d key of
        None \<Rightarrow> Inr (Fl 0)
      | Some (PNum x) \<Rightarrow> Inr x
      | Some (PStr s) \<Rightarrow> (case parse_float e s of None \<Rightarrow> Inl ValueError | Some x \<Rightarrow> Inr x)
      | Some PNone \<Rightarrow> Inl TypeError)"

text \<open>\<open>float(d[key])\<close>: a missing key raises \<open>KeyError\<close>.\<close>

definition float_item :: "env \<Rightarrow> pydict \<Rightarrow> string \<Rightarrow> error + pyfloat" where
  "float_item e d key =
     (case d key of None \<Rightarrow> Inl (KeyError key) | Some _ \<Rightarrow> float_get e d key)"

text \<open>Strings: decimal digits of a natural number, \<open>str.lower\<close> on ASCII letters,
  \<open>sub in s\<close>, \<open>s.endswith(suffix)\<close> and \<open>sep.join(parts)\<close>.\<close>

definition digit_char :: "nat \<Rightarrow> char" where
  "digit_char d = ''0123456789'' ! d"

fun str_nat :: "nat \<Rightarrow> string" where
  "str_nat n = (if n < 10 then [digit_char n] else str_nat (n div 10) @ [digit_char (n mod 10)])"

declare str_nat.simps [simp del]

definition lower_char :: "char \<Rightarrow> char" where
  "lower_char c =
     (case map_of (zip ''ABCDEFGHIJKLMNOPQRSTUVWXYZ'' ''abcdefghijklmnopqrstuvwxyz'') c of
        None \<Rightarrow> c
      | Some l \<Rightarrow> l)"

definition lower :: "string \<Rightarrow> string" where
  "lower s = map lower_char s"

fun startswith :: "string \<Rightarrow> string \<Rightarrow> bool" where
  "startswith s [] = True"
| "startswith [] (p # ps) = False"
| "startswith (c # cs) (p # ps) = (c = p \<and> startswith cs ps)"

fun contains :: "string \<Rightarrow> string \<Rightarrow> bool" where
  "contains [] sub = (sub = [])"
| "contains (c # cs) sub = (startswith (c # cs) sub \<or> contains cs sub)"

definition endswith :: "string \<Rightarrow> string \<Rightarrow> bool" where
  "endswith s suffix = startswith (rev s) (rev suffix)"

fun join :: "string \<Rightarrow> string list \<Rightarrow> string" where
  "join sep [] = []"
| "join sep [x] = x"
| "join sep (x # y # ys) = x @ sep @ join sep (y # ys)"

definition newline :: string where
  "newline = [CHR 0x0A]"

text \<open>Truthiness of an optional string (\<open>None\<close> and the empty string are false).\<close>

definition truthy :: "string option \<Rightarrow> bool" where
  "truthy v = (case v of None \<Rightarrow> False | Some s \<Rightarrow> s \<noteq> [])"

section \<open>The vector store (Qdrant) as the code uses it\<close>

record point =
  pid :: string
  vector :: vec
  payload :: pydict

text \<open>The three collections of notebook 02, and the prompts sent to the language model
  so far (so that an invocation of the generation capability is visible in the state).\<close>

record world =
  documents :: "point list"
  tfl_invoices :: "point list"
  conversation_memory :: "point list"
  llm_calls :: "string list"

text \<open>\<open>client.upsert\<close>: a point whose id is already stored replaces the stored point.\<close>

fun upsert_point :: "point \<Rightarrow> point list \<Rightarrow> point list" where
  "upsert_point p [] = [p]"
| "upsert_point p (q # qs) = (if pid q = pid p then p # qs else q # upsert_point p qs)"

definition upsert :: "point list \<Rightarrow> point list \<Rightarrow> point list" where
  "upsert coll points = foldl (\<lambda>c p. upsert_point p c) coll points"

text \<open>\<open>client.search(collection_name, query_vector, limit)\<close>, called without a filter:
  the \<open>limit\<close> best-scoring points of the whole collection, best first, each with its
  score.\<close>

definition search :: "env \<Rightarrow> point list \<Rightarrow> vec \<Rightarrow> nat \<Rightarrow> (point \<times> rat) list" where
  "search e coll query_vector limit =
     take limit (sort_key (\<lambda>r. - snd r) (map (\<lambda>p. (p, similarity e query_vector (vector p))) coll))"

text \<open>\<open>client.scroll(collection_name, scroll_filter={"must": [...]}, limit)[0]\<close>: the
  first \<open>limit\<close> points whose payload matches every condition.\<close>

definition matches :: "(string \<times> pyval) list \<Rightarrow> point \<Rightarrow> bool" where
  "matches must p = list_all (\<lambda>c. payload p (fst c) = Some (snd c)) must"

definition scroll :: "point list \<Rightarrow> (string \<times> pyval) list \<Rightarrow> nat \<Rightarrow> point list" where
  "scroll coll must limit = take limit (filter (matches must) coll)"

section \<open>Notebook 04: parsing and storing an invoice\<close>

text \<open>
  \<open>parse_csv_invoice\<close>. The data frame that \<open>pd.read_csv\<close> returns is the input: one
  dictionary per row, in which pandas puts \<open>NaN\<close> for an empty cell, a float for a cell of
  a numeric column and a string otherwise. The clock is read once per row, for the default
  of \<open>timestamp\<close>; \<open>clock i\<close> is the reading (in ISO format) at row \<open>i\<close>.
\<close>

definition get_default :: "pydict \<Rightarrow> string \<Rightarrow> pyval \<Rightarrow> pyval" where
  "get_default d key dflt = (case d key of None \<Rightarrow> dflt | Some v \<Rightarrow> v)"

definition parse_row :: "env \<Rightarrow> string \<Rightarrow> pydict \<Rightarrow> error + pydict" where
  "parse_row e now row =
     (case row ''date'' of
        None \<Rightarrow> Inl (KeyError ''date'')
      | Some date \<Rightarrow>
          (case float_item e row ''amount'' of
             Inl err \<Rightarrow> Inl err
           | Inr amount \<Rightarrow>
               Inr [''date'' \<mapsto> date,
                    ''amount'' \<mapsto> PNum amount,
                    ''journey_type'' \<mapsto> get_default row ''journey_type'' (PStr ''unknown''),
                    ''zones'' \<mapsto> get_default row ''zones'' (PStr []),
                    ''timestamp'' \<mapsto> get_default row ''timestamp'' (PStr now)]))"

fun parse_rows :: "env \<Rightarrow> (nat \<Rightarrow> string) \<Rightarrow> nat \<Rightarrow> pydict list \<Rightarrow> error + pydict list" where
  "parse_rows e clock i [] = Inr []"
| "parse_rows e clock i (row # rows) =
     (case parse_row e (clock i) row of
        Inl err \<Rightarrow> Inl err
      | Inr transaction \<Rightarrow>
          (case parse_rows e clock (i + 1) rows of
             Inl err \<Rightarrow> Inl err
           | Inr transactions \<Rightarrow> Inr (transaction # transactions)))"

definition parse_csv_invoice :: "env \<Rightarrow> (nat \<Rightarrow> string) \<Rightarrow> pydict list \<Rightarrow> error + pydict list" where
  "parse_csv_invoice e clock df = parse_rows e clock 0 df"

text \<open>\<open>store_invoice\<close>: one point per transaction, its id the invoice id and the position
  of the transaction in the list.\<close>

definition str_item :: "env \<Rightarrow> pydict \<Rightarrow> string \<Rightarrow> error + string" where
  "str_item e d key = (case d key of None \<Rightarrow> Inl (KeyError key) | Some v \<Rightarrow> Inr (py_str e v))"

definition embedding_text :: "env \<Rightarrow> pydict \<Rightarrow> error + string" where
  "embedding_text e transaction =
     (case str_item e transaction ''date'' of
        Inl err \<Rightarrow> Inl err
      | Inr d \<Rightarrow>
          (case str_item e transaction ''journey_type'' of
             Inl err \<Rightarrow> Inl err
           | Inr j \<Rightarrow>
               (case str_item e transaction ''amount'' of
                  Inl err \<Rightarrow> Inl err
                | Inr a \<Rightarrow> Inr (d @ '' '' @ j @ '' '' @ a))))"

fun invoice_points :: "env \<Rightarrow> string \<Rightarrow> (nat \<Rightarrow> pydict) \<Rightarrow> nat \<Rightarrow> pydict list \<Rightarrow> error + point list" where
  "invoice_points e invoice_id base i [] = Inr []"
| "invoice_points e invoice_id base i (transaction # transactions) =
     (case embedding_text e transaction of
        Inl err \<Rightarrow> Inl err
      | Inr text \<Rightarrow>
          (case invoice_points e invoice_id base (i + 1) transactions of
             Inl err \<Rightarrow> Inl err
           | Inr points \<Rightarrow>
               Inr (\<lparr>pid = invoice_id @ ''_'' @ str_nat i,
                      vector = embed_query e text,
                      payload = base i ++ transaction\<rparr> # points)))"

definition store_invoice :: "env \<Rightarrow> world \<Rightarrow> pydict list \<Rightarrow> string \<Rightarrow> string \<Rightarrow> world \<times> (error + unit)" where
  "store_invoice e w transactions invoice_id user_id =
     (case invoice_points e invoice_id
             (\<lambda>i. [''invoice_id'' \<mapsto> PStr invoice_id,
                   ''user_id'' \<mapsto> PStr user_id,
                   ''transaction_id'' \<mapsto> PStr (invoice_id @ ''_'' @ str_nat i)])
             0 transactions of
        Inl err \<Rightarrow> (w, Inl err)
      | Inr points \<Rightarrow> (w\<lparr>tfl_invoices := upsert (tfl_invoices w) points\<rparr>, Inr ()))"

section \<open>Notebook 05: the state of the agent and its nodes\<close>

datatype message = HumanMessage (content: string) | AIMessage (content: string)

record breakdown =
  total_amount :: pyfloat
  per_day_breakdown :: "string \<rightharpoonup> pyfloat"
  transactions_count :: nat

text \<open>\<open>AgentState\<close>. The field \<open>context\<close> of the source is \<open>context_text\<close> here. A
  retrieved document is the pair of its \<open>content\<close> and \<open>score\<close>.\<close>

record agent_state =
  messages :: "message list"
  query :: string
  request_type :: string
  route_path :: "string option"
  retrieved_docs :: "(pyval \<times> rat) list"
  context_text :: string
  memory :: pydict
  invoice_id :: "string option"
  selected_dates :: "string list"
  calculated_amount :: "pyfloat option"
  cost_breakdown :: "breakdown option"
  response :: string

definition receive_query :: "agent_state \<Rightarrow> agent_state" where
  "receive_query state =
     (if messages state = [] then state
      else
        let last_message = last (messages state);
            query_text = content last_message;
            req_type = ''general_rag'';
            req_type =
              (if contains (lower query_text) ''invoice'' \<or> truthy (invoice_id state)
               then ''tfl_chat'' else req_type);
            req_type =
              (if selected_dates state \<noteq> [] then ''tfl_calculation'' else req_type)
        in state\<lparr>query := query_text, request_type := req_type\<rparr>)"

definition route_request :: "agent_state \<Rightarrow> agent_state" where
  "route_request state =
     (let req_type = request_type state
      in if req_type = ''tfl_invoice'' then state\<lparr>route_path := Some ''process_tfl_invoice''\<rparr>
         else if req_type = ''tfl_calculation'' then state\<lparr>route_path := Some ''calculate_cost''\<rparr>
         else if req_type = ''tfl_chat'' then state\<lparr>route_path := Some ''tfl_chat''\<rparr>
         else state\<lparr>route_path := Some ''rag_flow''\<rparr>)"

definition retrieve_documents :: "env \<Rightarrow> world \<Rightarrow> agent_state \<Rightarrow> agent_state" where
  "retrieve_documents e w state =
     (let query_vector = embed_query e (query state);
          results = search e (documents w) query_vector 5
      in state\<lparr>retrieved_docs :=
           map (\<lambda>r. (get_default (payload (fst r)) ''text'' (PStr []), snd r)) results\<rparr>)"

definition format_context :: "env \<Rightarrow> agent_state \<Rightarrow> agent_state" where
  "format_context e state =
     (let docs = retrieved_docs state;
          context = join (newline @ newline)
            (map (\<lambda>(i, doc). ''Document '' @ str_nat (i + 1) @ '' (relevance: ''
                    @ fmt_2f e (snd doc) @ ''):'' @ newline @ py_str e (fst doc))
               (zip [0..<length docs] docs))
      in state\<lparr>context_text := context\<rparr>)"

definition system_prompt :: string where
  "system_prompt = ''You are a helpful assistant. Use the provided context to answer questions.''"

definition generate_response :: "env \<Rightarrow> world \<Rightarrow> agent_state \<Rightarrow> world \<times> agent_state" where
  "generate_response e w state =
     (let prompt = system_prompt @ newline @ newline @ ''Context:'' @ newline
            @ context_text state @ newline @ newline @ ''Question: '' @ query state
            @ newline @ newline @ ''Answer:'';
          response_text = llm_invoke e prompt
      in (w\<lparr>llm_calls := llm_calls w @ [prompt]\<rparr>,
          state\<lparr>response := response_text,
                messages := messages state @ [AIMessage response_text]\<rparr>))"

text \<open>The node \<open>calculate_cost\<close>. \<open>sum\<close> and the per-day loop convert each amount with
  \<open>float\<close>, which may raise. A transaction that passed the date filter has a string date,
  so the last case of \<open>per_day_loop\<close> is never taken on the filtered list.\<close>

definition date_in :: "pydict \<Rightarrow> string list \<Rightarrow> bool" where
  "date_in t selected_date_strs =
     (case t ''date'' of Some (PStr d) \<Rightarrow> d \<in> set selected_date_strs | _ \<Rightarrow> False)"

fun sum_amounts :: "env \<Rightarrow> pydict list \<Rightarrow> pyfloat \<Rightarrow> error + pyfloat" where
  "sum_amounts e [] acc = Inr acc"
| "sum_amounts e (t # ts) acc =
     (case float_get e t ''amount'' of
        Inl err \<Rightarrow> Inl err
      | Inr x \<Rightarrow> sum_amounts e ts (fadd acc x))"

fun per_day_loop :: "env \<Rightarrow> pydict list \<Rightarrow> (string \<rightharpoonup> pyfloat) \<Rightarrow> error + (string \<rightharpoonup> pyfloat)" where
  "per_day_loop e [] per_day = Inr per_day"
| "per_day_loop e (t # ts) per_day =
     (case t ''date'' of
        Some (PStr date) \<Rightarrow>
          (let per_day = (if per_day date = None then per_day(date \<mapsto> Fl 0) else per_day)
           in case float_get e t ''amount'' of
                Inl err \<Rightarrow> Inl err
              | Inr x \<Rightarrow>
                  per_day_loop e ts
                    (per_day(date \<mapsto> fadd (case per_day date of None \<Rightarrow> Fl 0 | Some v \<Rightarrow> v) x)))
      | _ \<Rightarrow> per_day_loop e ts per_day)"

definition pound :: string where
  "pound = [CHR 0xC2, CHR 0xA3]"

definition missing_error :: "agent_state \<Rightarrow> agent_state" where
  "missing_error state = state\<lparr>response := ''Error: Missing invoice_id or selected_dates''\<rparr>"

definition calculate_cost :: "env \<Rightarrow> world \<Rightarrow> agent_state \<Rightarrow> error + agent_state" where
  "calculate_cost e w state =
     (case invoice_id state of
        None \<Rightarrow> Inr (missing_error state)
      | Some inv_id \<Rightarrow>
          if inv_id = [] \<or> selected_dates state = [] then Inr (missing_error state)
          else
            let results = scroll (tfl_invoices w) [(''invoice_id'', PStr inv_id)] 1000;
                transactions = map payload results;
                selected_date_strs = selected_dates state;
                filtered = filter (\<lambda>t. date_in t selected_date_strs) transactions
            in case sum_amounts e filtered (Fl 0) of
                 Inl err \<Rightarrow> Inl err
               | Inr total_sum \<Rightarrow>
                   (case per_day_loop e filtered Map.empty of
                      Inl err \<Rightarrow> Inl err
                    | Inr per_day \<Rightarrow>
                        Inr (state\<lparr>calculated_amount := Some (round2 total_sum),
                                   cost_breakdown := Some
                                     \<lparr>total_amount = round2 total_sum,
                                      per_day_breakdown = per_day,
                                      transactions_count = length filtered\<rparr>,
                                   response := ''Total cost for selected dates: '' @ pound
                                     @ str_pyfloat e (round2 total_sum)\<rparr>)))"

section \<open>Notebook 06: the graph\<close>

text \<open>The nodes added to the \<open>StateGraph\<close>, and \<open>END\<close>.\<close>

datatype node =
  N_receive_query | N_route_request | N_retrieve_documents | N_format_context
  | N_generate_response | N_calculate_cost | END

definition route_decision :: "agent_state \<Rightarrow> string" where
  "route_decision state =
     (let route = route_path state
      in if route = Some ''calculate_cost'' then ''calculate_cost''
         else if route = Some ''rag_flow'' then ''retrieve_documents''
         else ''generate_response'')"

text \<open>The dictionary given to \<open>add_conditional_edges\<close>.\<close>

definition conditional_edges :: "string \<rightharpoonup> node" where
  "conditional_edges =
     [''retrieve_documents'' \<mapsto> N_retrieve_documents,
      ''calculate_cost'' \<mapsto> N_calculate_cost,
      ''generate_response'' \<mapsto> N_generate_response]"

text \<open>The edges: the node that runs after \<open>n\<close>, given the state \<open>n\<close> has produced.\<close>

fun next_node :: "node \<Rightarrow> agent_state \<Rightarrow> node" where
  "next_node N_receive_query state = N_route_request"
| "next_node N_route_request state =
     (case conditional_edges (route_decision state) of None \<Rightarrow> END | Some n \<Rightarrow> n)"
| "next_node N_retrieve_documents state = N_format_context"
| "next_node N_format_context state = N_generate_response"
| "next_node N_generate_response state = END"
| "next_node N_calculate_cost state = END"
| "next_node END state = END"

text \<open>What a node does to the collaborators' state and to the agent state; a node that
  raises leaves the agent state behind.\<close>

fun exec_node :: "env \<Rightarrow> node \<Rightarrow> world \<Rightarrow> agent_state \<Rightarrow> world \<times> (error + agent_state)" where
  "exec_node e N_receive_query w state = (w, Inr (receive_query state))"
| "exec_node e N_route_request w state = (w, Inr (route_request state))"
| "exec_node e N_retrieve_documents w state = (w, Inr (retrieve_documents e w state))"
| "exec_node e N_format_context w state = (w, Inr (format_context e state))"
| "exec_node e N_generate_response w state =
     (case generate_response e w state of (w', state') \<Rightarrow> (w', Inr state'))"
| "exec_node e N_calculate_cost w state = (w, calculate_cost e w state)"
| "exec_node e END w state = (w, Inr state)"

fun rank :: "node \<Rightarrow> nat" where
  "rank N_receive_query = 5"
| "rank N_route_request = 4"
| "rank N_retrieve_documents = 3"
| "rank N_format_context = 2"
| "rank N_generate_response = 1"
| "rank N_calculate_cost = 1"
| "rank END = 0"

lemma rank_next_node: "n \<noteq> END \<Longrightarrow> rank (next_node n state) < rank n"
  by (cases n) (auto simp: conditional_edges_def route_decision_def Let_def)

text \<open>Running the compiled graph from a node: the nodes executed, in order, the
  collaborators' state at the end, and the final agent state or the exception raised.\<close>

function run_from :: "env \<Rightarrow> node \<Rightarrow> world \<Rightarrow> agent_state \<Rightarrow> node list \<times> world \<times> (error + agent_state)" where
  "run_from e n w state =
     (if n = END then ([], w, Inr state)
      else case exec_node e n w state of
             (w', Inl err) \<Rightarrow> ([n], w', Inl err)
           | (w', Inr state') \<Rightarrow>
               (case run_from e (next_node n state') w' state' of
                  (trace, result) \<Rightarrow> (n # trace, result)))"
  by pat_completeness auto
termination
  by (relation "measure (\<lambda>(e, n, w, state). rank n)") (auto simp: rank_next_node)

declare run_from.simps [simp del]

text \<open>\<open>app.invoke(input)\<close>: the entry point is \<open>receive_query\<close>.\<close>

definition invoke :: "env \<Rightarrow> world \<Rightarrow> agent_state \<Rightarrow> node list \<times> world \<times> (error + agent_state)" where
  "invoke e w input = run_from e N_receive_query w input"

definition trace_of :: "node list \<times> world \<times> (error + agent_state) \<Rightarrow> node list" where
  "trace_of r = fst r"

definition world_of :: "node list \<times> world \<times> (error + agent_state) \<Rightarrow> world" where
  "world_of r = fst (snd r)"

definition result_of :: "node list \<times> world \<times> (error + agent_state) \<Rightarrow> error + agent_state" where
  "result_of r = snd (snd r)"

section \<open>api.py: the endpoints\<close>

text \<open>\<open>user_id or 'default'\<close>.\<close>

definition or_default :: "string option \<Rightarrow> string" where
  "or_default v = (if truthy v then (case v of Some s \<Rightarrow> s | None \<Rightarrow> ''default'') else ''default'')"

text \<open>
  \<open>POST /api/transport/upload\<close>. The inputs are the file name, the data frame pandas reads
  from the file's bytes, the form field \<open>user_id\<close> and the clock (\<open>int(time.time())\<close>, in
  seconds). The answer is either the \<open>error\<close> object or the invoice id with the number of
  transactions.
\<close>

datatype upload_response = Upload_error string | Uploaded string nat

definition upload_row :: "env \<Rightarrow> pydict \<Rightarrow> error + pydict" where
  "upload_row e row =
     (case float_get e row ''amount'' of
        Inl err \<Rightarrow> Inl err
      | Inr amount \<Rightarrow>
          Inr [''date'' \<mapsto> PStr (py_str e (get_default row ''date'' (PStr []))),
               ''amount'' \<mapsto> PNum amount,
               ''journey_type'' \<mapsto> PStr (py_str e (get_default row ''journey_type'' (PStr ''unknown'')))])"

fun upload_rows :: "env \<Rightarrow> pydict list \<Rightarrow> error + pydict list" where
  "upload_rows e [] = Inr []"
| "upload_rows e (row # rows) =
     (case upload_row e row of
        Inl err \<Rightarrow> Inl err
      | Inr t \<Rightarrow>
          (case upload_rows e rows of
             Inl err \<Rightarrow> Inl err
           | Inr ts \<Rightarrow> Inr (t # ts)))"

definition upload_invoice_id :: "string option \<Rightarrow> nat \<Rightarrow> string" where
  "upload_invoice_id user_id now = ''invoice_'' @ or_default user_id @ ''_'' @ str_nat now"

definition upload_invoice ::
  "env \<Rightarrow> world \<Rightarrow> string \<Rightarrow> pydict list \<Rightarrow> string option \<Rightarrow> nat \<Rightarrow> world \<times> (error + upload_response)" where
  "upload_invoice e w filename df user_id now =
     (if endswith filename ''.csv'' then
        (case upload_rows e df of
           Inl err \<Rightarrow> (w, Inl err)
         | Inr transactions \<Rightarrow>
             (let inv_id = upload_invoice_id user_id now
              in case invoice_points e inv_id
                        (\<lambda>i. [''invoice_id'' \<mapsto> PStr inv_id,
                              ''user_id'' \<mapsto> PStr (or_default user_id)])
                        0 transactions of
                   Inl err \<Rightarrow> (w, Inl err)
                 | Inr points \<Rightarrow>
                     (w\<lparr>tfl_invoices := upsert (tfl_invoices w) points\<rparr>,
                      Inr (Uploaded inv_id (length transactions)))))
      else (w, Inr (Upload_error ''Only CSV supported for MVP'')))"

text \<open>
  \<open>POST /api/transport/calculate\<close>, on a frame whose \<open>amount\<close> column is numeric: a row
  is its \<open>date\<close> cell and its \<open>amount\<close>. The sums of pandas skip \<open>NaN\<close>; \<open>groupby\<close>
  makes one entry per date that occurs among the filtered rows.
\<close>

record calculate_response =
  total_cost :: pyfloat
  breakdown_by_date :: "string \<rightharpoonup> pyfloat"
  echoed_dates :: "string list"

definition isin :: "pyval \<Rightarrow> string list \<Rightarrow> bool" where
  "isin v strs = (case v of PStr d \<Rightarrow> d \<in> set strs | _ \<Rightarrow> False)"

definition pandas_sum :: "pyfloat list \<Rightarrow> pyfloat" where
  "pandas_sum xs = py_sum (filter (\<lambda>x. x \<noteq> NaN) xs)"

definition groupby_sum :: "(pyval \<times> pyfloat) list \<Rightarrow> (string \<rightharpoonup> pyfloat)" where
  "groupby_sum rows = (\<lambda>d.
     if list_ex (\<lambda>r. fst r = PStr d) rows
     then Some (pandas_sum (map snd (filter (\<lambda>r. fst r = PStr d) rows)))
     else None)"

definition calculate_cost_api :: "(pyval \<times> pyfloat) list \<Rightarrow> string list \<Rightarrow> calculate_response" where
  "calculate_cost_api df dates =
     (let selected_date_strs = dates;
          filtered = filter (\<lambda>r. isin (fst r) selected_date_strs) df;
          total_sum = pandas_sum (map snd filtered);
          per_day = groupby_sum filtered
      in \<lparr>total_cost = round2 total_sum,
          breakdown_by_date = map_option round2 \<circ> per_day,
          echoed_dates = selected_date_strs\<rparr>)"

text \<open>
  \<open>POST /api/chat\<close>: the uploaded text is stored as a document that carries the session id,
  then the three documents most similar to the message are retrieved from the collection
  and joined into the prompt. The answer is streamed one character per chunk.
\<close>

record chat_outcome =
  chat_results :: "(point \<times> rat) list"
  chat_prompt :: string
  chat_chunks :: "string list"

fun text_values :: "(point \<times> rat) list \<Rightarrow> error + string list" where
  "text_values [] = Inr []"
| "text_values (r # rs) =
     (case get_default (payload (fst r)) ''text'' (PStr []) of
        PStr s \<Rightarrow> (case text_values rs of Inl err \<Rightarrow> Inl err | Inr ss \<Rightarrow> Inr (s # ss))
      | _ \<Rightarrow> Inl TypeError)"

definition chat_doc_id :: "string option \<Rightarrow> nat \<Rightarrow> string" where
  "chat_doc_id session_id now = ''doc_'' @ or_default session_id @ ''_'' @ str_nat now"

definition chat :: "env \<Rightarrow> world \<Rightarrow> string \<Rightarrow> string \<Rightarrow> string option \<Rightarrow> nat \<Rightarrow> world \<times> (error + chat_outcome)" where
  "chat e w contents message session_id now =
     (let doc_id = chat_doc_id session_id now;
          w1 = w\<lparr>documents := upsert (documents w)
                 [\<lparr>pid = doc_id,
                   vector = embed_query e contents,
                   payload = [''text'' \<mapsto> PStr contents,
                              ''doc_id'' \<mapsto> PStr doc_id,
                              ''session_id'' \<mapsto> (case session_id of None \<Rightarrow> PNone | Some s \<Rightarrow> PStr s)]\<rparr>]\<rparr>;
          results = search e (documents w1) (embed_query e message) 3
      in case text_values results of
           Inl err \<Rightarrow> (w1, Inl err)
         | Inr texts \<Rightarrow>
             (let prompt = ''Context:'' @ newline @ join newline texts @ newline @ newline
                    @ ''Question: '' @ message @ newline @ newline @ ''Answer:'';
                  response_text = llm_invoke e prompt
              in (w1\<lparr>llm_calls := llm_calls w1 @ [prompt]\<rparr>,
                  Inr \<lparr>chat_results = results,
                       chat_prompt = prompt,
                       chat_chunks = map (\<lambda>c. [c]) response_text\<rparr>)))"

text \<open>The session ids carried by the retrieved documents.\<close>

definition sessions_of :: "(point \<times> rat) list \<Rightarrow> pyval option list" where
  "sessions_of results = map (\<lambda>r. payload (fst r) ''session_id'') results"

section \<open>The frontend calculator (components/TransportCalculator.tsx)\<close>

text \<open>
  \<open>handleCalculate\<close>, from the click to the end of the simulated request. The value that
  \<open>Math.random()\<close> returns is an input (\<open>rnd\<close>, in \<open>[0, 1)\<close>). The result is the state of
  the component with the toast shown.
\<close>

record calculator =
  selectedDates :: "jsdate list"
  uploadedFile :: "string option"
  isLoading :: bool
  totalCost :: "rat option"

definition handleCalculate :: "calculator \<Rightarrow> rat \<Rightarrow> calculator \<times> string \<times> string" where
  "handleCalculate c rnd =
     (if uploadedFile c = None \<or> length (selectedDates c) = 0
      then (c, ''Please upload an invoice and select dates.'', ''error'')
      else
        let mockResult = of_nat (length (selectedDates c)) * (575 / 100) + rnd * 10
        in (c\<lparr>isLoading := False, totalCost := Some mockResult\<rparr>,
            ''Calculation successful!'', ''success''))"

section \<open>The classification rule in the words of the specification\<close>

text \<open>
  What a payload carries, and the kind the specification's rule gives it, its four cases
  checked in the stated order (\<open>None\<close> when no case applies). It is compared with
  \<open>receive_query\<close> below.
\<close>

datatype request_kind =
  invoiceUpload | costCalculation | invoiceChat | generalDocumentChat
  | combinedCalculationAndChat

record carried =
  raw_invoice_bytes :: bool
  date_selection :: bool
  free_text_query :: bool
  chat_context :: bool
  has_invoice_id :: bool

definition spec_classify :: "carried \<Rightarrow> request_kind option" where
  "spec_classify p =
     (if raw_invoice_bytes p then Some invoiceUpload
      else if date_selection p \<and> \<not> free_text_query p then Some costCalculation
      else if free_text_query p \<and> chat_context p
        then Some (if has_invoice_id p then invoiceChat else generalDocumentChat)
      else if date_selection p \<and> free_text_query p then Some combinedCalculationAndChat
      else None)"

text \<open>The request types of the code that correspond to the kinds of the specification;
  no request type of the code stands for the combined kind.\<close>

definition kind_of :: "string \<Rightarrow> request_kind option" where
  "kind_of req_type =
     (if req_type = ''tfl_invoice'' then Some invoiceUpload
      else if req_type = ''tfl_calculation'' then Some costCalculation
      else if req_type = ''tfl_chat'' then Some invoiceChat
      else if req_type = ''general_rag'' then Some generalDocumentChat
      else None)"

text \<open>What an agent state carries: it has no field for file bytes, its free-text query
  is its last message, and it is in an invoice or chat context as \<open>ctx\<close> says.\<close>

definition carried_by :: "agent_state \<Rightarrow> bool \<Rightarrow> carried" where
  "carried_by state ctx =
     \<lparr>raw_invoice_bytes = False,
      date_selection = (selected_dates state \<noteq> []),
      free_text_query = (messages state \<noteq> []),
      chat_context = ctx,
      has_invoice_id = truthy (invoice_id state)\<rparr>"

section \<open>Notions used in the statements\<close>

text \<open>The per-day entry of a date in the breakdown of a state, if there is a breakdown and
  it has one.\<close>

definition daily_total :: "agent_state \<Rightarrow> string \<Rightarrow> pyfloat option" where
  "daily_total state d =
     (case cost_breakdown state of None \<Rightarrow> None | Some b \<Rightarrow> per_day_breakdown b d)"

text \<open>The amount of a transaction is a float (or absent), so that \<open>float\<close> does not
  raise; and every stored transaction is so.\<close>

definition numeric :: "pydict \<Rightarrow> bool" where
  "numeric t = (case t ''amount'' of None \<Rightarrow> True | Some (PNum x) \<Rightarrow> True | Some _ \<Rightarrow> False)"

definition numeric_amounts :: "point list \<Rightarrow> bool" where
  "numeric_amounts coll = list_all (\<lambda>p. numeric (payload p)) coll"

text \<open>Whether a collection holds a transaction of an invoice on a date.\<close>

definition has_transaction :: "point list \<Rightarrow> string \<Rightarrow> string \<Rightarrow> bool" where
  "has_transaction coll iid d =
     list_ex (\<lambda>p. payload p ''invoice_id'' = Some (PStr iid) \<and> payload p ''date'' = Some (PStr d)) coll"

text \<open>What a run of \<open>calculate_cost\<close> reports: the exception, or the amount, the breakdown
  and the response of the resulting state.\<close>

definition outputs :: "error + agent_state \<Rightarrow> error + pyfloat option \<times> breakdown option \<times> string" where
  "outputs r =
     (case r of
        Inl err \<Rightarrow> Inl err
      | Inr state \<Rightarrow> Inr (calculated_amount state, cost_breakdown state, response state))"

text \<open>The transactions of an invoice, in the order of the collection.\<close>

definition invoice_transactions :: "world \<Rightarrow> string \<Rightarrow> pydict list" where
  "invoice_transactions w iid =
     map payload (filter (matches [(''invoice_id'', PStr iid)]) (tfl_invoices w))"

text \<open>The list \<open>points\<close> that \<open>upload_invoice\<close> builds before it upserts it.\<close>

definition upload_points :: "env \<Rightarrow> pydict list \<Rightarrow> string option \<Rightarrow> nat \<Rightarrow> error + point list" where
  "upload_points e df user_id now =
     (case upload_rows e df of
        Inl err \<Rightarrow> Inl err
      | Inr transactions \<Rightarrow>
          invoice_points e (upload_invoice_id user_id now)
            (\<lambda>i. [''invoice_id'' \<mapsto> PStr (upload_invoice_id user_id now),
                  ''user_id'' \<mapsto> PStr (or_default user_id)])
            0 transactions)"

text \<open>The transaction a point carries: its date, amount and journey type.\<close>

definition fields_of :: "point \<Rightarrow> pyval option \<times> pyval option \<times> pyval option" where
  "fields_of p = (payload p ''date'', payload p ''amount'', payload p ''journey_type'')"

text \<open>A row on whose amount \<open>float\<close> raises: a string that is not a number, or \<open>None\<close>.\<close>

definition bad_amount :: "env \<Rightarrow> pydict \<Rightarrow> bool" where
  "bad_amount e row =
     (case row ''amount'' of
        Some (PStr s) \<Rightarrow> parse_float e s = None
      | Some PNone \<Rightarrow> True
      | _ \<Rightarrow> False)"

section \<open>Concrete collaborators and inputs for evaluation\<close>

text \<open>Stand-ins for the collaborators, to evaluate the model on concrete inputs: the
  embedding of a text is its length, the score is the dot product, the language model always
  answers "ok", numbers are printed by their integer part, and \<open>float\<close> parses the one
  string "8.50". The general theorems hold for every environment.\<close>

definition dot :: "vec \<Rightarrow> vec \<Rightarrow> rat" where
  "dot a b = sum_list (map (\<lambda>p. fst p * snd p) (zip a b))"

definition env0 :: env where
  "env0 = \<lparr>embed_query = (\<lambda>s. [of_nat (length s), 1]),
           similarity = dot,
           llm_invoke = (\<lambda>prompt. ''ok''),
           str_float = (\<lambda>r. str_nat (nat \<lfloor>r\<rfloor>)),
           fmt_2f = (\<lambda>r. str_nat (nat \<lfloor>r\<rfloor>)),
           parse_float = (\<lambda>s. if s = ''8.50'' then Some (Fl (850 / 100)) else None)\<rparr>"

definition world0 :: world where
  "world0 = \<lparr>documents = [], tfl_invoices = [], conversation_memory = [], llm_calls = []\<rparr>"

definition state0 :: agent_state where
  "state0 = \<lparr>messages = [], query = [], request_type = ''general_rag'', route_path = None,
             retrieved_docs = [], context_text = [], memory = Map.empty, invoice_id = None,
             selected_dates = [], calculated_amount = None, cost_breakdown = None,
             response = []\<rparr>"

text \<open>The input of the notebook's test of the calculation flow, and a chat request about
  an invoice.\<close>

definition calc_input :: agent_state where
  "calc_input = state0\<lparr>messages := [HumanMessage ''Calculate cost''], query := ''Calculate cost'',
      request_type := ''tfl_calculation'', invoice_id := Some ''invoice_001'',
      selected_dates := [''2024-01-15'', ''2024-01-16'']\<rparr>"

definition chat_input :: agent_state where
  "chat_input = state0\<lparr>messages := [HumanMessage ''What is on my invoice?''],
      invoice_id := Some ''invoice_001''\<rparr>"

text \<open>A stored invoice for evaluation: two fares on 15 January 2024 and one on the 16th.\<close>

definition txn :: "string \<Rightarrow> rat \<Rightarrow> string \<Rightarrow> pydict" where
  "txn d a j = [''date'' \<mapsto> PStr d, ''amount'' \<mapsto> PNum (Fl a), ''journey_type'' \<mapsto> PStr j]"

definition stored :: "string \<Rightarrow> string \<Rightarrow> nat \<Rightarrow> pydict \<Rightarrow> point" where
  "stored iid user i t =
     \<lparr>pid = iid @ ''_'' @ str_nat i, vector = [],
      payload = [''invoice_id'' \<mapsto> PStr iid, ''user_id'' \<mapsto> PStr user] ++ t\<rparr>"

definition ledger :: world where
  "ledger = world0\<lparr>tfl_invoices :=
     [stored ''invoice_001'' ''default'' 0 (txn ''2024-01-15'' (850 / 100) ''tube''),
      stored ''invoice_001'' ''default'' 1 (txn ''2024-01-15'' (230 / 100) ''bus''),
      stored ''invoice_001'' ''default'' 2 (txn ''2024-01-16'' (440 / 100) ''tube'')]\<rparr>"

definition calculator0 :: calculator where
  "calculator0 = \<lparr>selectedDates = [Date 0], uploadedFile = Some ''invoice.csv'',
                  isLoading = False, totalCost = None\<rparr>"

text \<open>The same ledger with the invoice of another user added and an earlier prompt in
  the log.\<close>

definition ledger2 :: world where
  "ledger2 = ledger\<lparr>tfl_invoices :=
       stored ''invoice_002'' ''bob'' 0 (txn ''2024-01-15'' (990 / 100) ''train'') # tfl_invoices ledger,
     llm_calls := [''earlier prompt'']\<rparr>"

definition selection_A :: agent_state where
  "selection_A = calc_input\<lparr>selected_dates := [''2024-01-15'', ''2024-01-17'']\<rparr>"

text \<open>A frame of three rows whose second row has an empty amount cell, and one whose
  second amount is not a number.\<close>

definition rows3 :: "pydict list" where
  "rows3 =
     [[''date'' \<mapsto> PStr ''2024-01-15'', ''amount'' \<mapsto> PNum (Fl (850 / 100)),
       ''journey_type'' \<mapsto> PStr ''tube''],
      [''date'' \<mapsto> PStr ''2024-01-15'', ''amount'' \<mapsto> PNum NaN,
       ''journey_type'' \<mapsto> PStr ''bus''],
      [''date'' \<mapsto> PStr ''2024-01-16'', ''amount'' \<mapsto> PNum (Fl (440 / 100)),
       ''journey_type'' \<mapsto> PStr ''tube'']]"

definition rows_bad :: "pydict list" where
  "rows_bad =
     [[''date'' \<mapsto> PStr ''2024-01-15'', ''amount'' \<mapsto> PStr ''8.50'',
       ''journey_type'' \<mapsto> PStr ''tube''],
      [''date'' \<mapsto> PStr ''2024-01-15'', ''amount'' \<mapsto> PStr ''n/a'',
       ''journey_type'' \<mapsto> PStr ''bus'']]"

text \<open>A documents collection that holds one document, stored in the session of another
  user.\<close>

definition bob_doc :: point where
  "bob_doc =
     \<lparr>pid = ''doc_bob_999'', vector = [9, 1],
      payload = [''text'' \<mapsto> PStr ''bob notes'', ''doc_id'' \<mapsto> PStr ''doc_bob_999'',
                 ''session_id'' \<mapsto> PStr ''bob'']\<rparr>"

definition bob_world :: world where
  "bob_world = world0\<lparr>documents := [bob_doc]\<rparr>"

section \<open>Proofs: the calendar\<close>

subsection \<open>Facts about the handler\<close>


lemma isSameDay_key: "isSameDay tz a b \<longleftrightarrow> day_key tz a = day_key tz b"
  by (auto simp: isSameDay_def day_key_def getFullYear_def getMonth_def getDate_def
      prod_eq_iff)

lemma no_two_same_day_distinct: "no_two_same_day tz xs \<longleftrightarrow> distinct (map (day_key tz) xs)"
  by (induction xs) (auto simp: isSameDay_key list_all_iff)

lemma findIndex_from_none:
  "(\<forall>x\<in>set xs. \<not> p x) \<Longrightarrow> findIndex_from p xs i = -1"
  by (induction xs arbitrary: i) auto

lemma findIndex_from_some:
  "\<exists>x\<in>set xs. p x \<Longrightarrow> i \<le> findIndex_from p xs i"
proof (induction xs arbitrary: i)
  case Nil
  then show ?case by simp
next
  case (Cons x xs)
  show ?case
  proof (cases "p x")
    case True
    then show ?thesis by simp
  next
    case False
    with Cons.prems have "\<exists>y\<in>set xs. p y" by auto
    from Cons.IH [OF this, of "i + 1"] False show ?thesis by simp
  qed
qed

lemma filter_from_all: "(\<And>x j. i \<le> j \<Longrightarrow> f x j) \<Longrightarrow> filter_from f xs i = xs"
  by (induction xs arbitrary: i) auto

lemma remove_found:
  assumes "distinct (map key xs)" and "\<exists>x\<in>set xs. key x = k"
  shows "filter_from (\<lambda>_ index. index \<noteq> findIndex_from (\<lambda>d. key d = k) xs i) xs i
         = filter (\<lambda>d. key d \<noteq> k) xs"
  using assms
proof (induction xs arbitrary: i)
  case Nil
  then show ?case by simp
next
  case (Cons x xs)
  show ?case
  proof (cases "key x = k")
    case True
    from Cons.prems(1) have "key x \<notin> set (map key xs)" by simp
    with True have rest: "\<forall>y\<in>set xs. key y \<noteq> k" by (auto simp: image_iff)
    have "filter_from (\<lambda>_ index. index \<noteq> i) xs (i + 1) = xs"
      by (rule filter_from_all) simp
    moreover from rest have "filter (\<lambda>d. key d \<noteq> k) xs = xs" by simp
    ultimately show ?thesis using True by simp
  next
    case False
    with Cons.prems(2) have ex: "\<exists>y\<in>set xs. key y = k" by auto
    from findIndex_from_some [of xs "\<lambda>d. key d = k" "i + 1"] ex
    have "i + 1 \<le> findIndex_from (\<lambda>d. key d = k) xs (i + 1)" by simp
    then have ne: "i \<noteq> findIndex_from (\<lambda>d. key d = k) xs (i + 1)" by simp
    from Cons.prems(1) have "distinct (map key xs)" by simp
    from Cons.IH [OF this ex, of "i + 1"] False ne show ?thesis by simp
  qed
qed

lemma handleDateClick_present:
  assumes "no_two_same_day tz sel" and "selected tz sel day"
  shows "handleDateClick tz sel day
         = sort_key getTime (filter (\<lambda>d. \<not> isSameDay tz d day) sel)"
proof -
  let ?p = "\<lambda>d. day_key tz d = day_key tz day"
  from assms(2) have ex: "\<exists>x\<in>set sel. ?p x"
    by (auto simp: selected_def list_ex_iff isSameDay_key)
  from assms(1) have dist: "distinct (map (day_key tz) sel)"
    by (simp add: no_two_same_day_distinct)
  from findIndex_from_some [OF ex, of 0] have "findIndex ?p sel > -1"
    by (simp add: findIndex_def)
  moreover from remove_found [OF dist ex, of 0]
  have "filter_indexed (\<lambda>_ index. index \<noteq> findIndex ?p sel) sel = filter (\<lambda>d. \<not> ?p d) sel"
    by (simp add: filter_indexed_def findIndex_def)
  ultimately show ?thesis
    by (simp add: handleDateClick_def isSameDay_key Let_def)
qed

lemma handleDateClick_absent:
  assumes "\<not> selected tz sel day"
  shows "handleDateClick tz sel day = sort_key getTime (sel @ [day])"
proof -
  from assms have "\<forall>x\<in>set sel. \<not> isSameDay tz x day"
    by (simp add: selected_def list_ex_iff)
  then have "findIndex (\<lambda>d. isSameDay tz d day) sel = -1"
    unfolding findIndex_def by (rule findIndex_from_none)
  then show ?thesis by (simp add: handleDateClick_def)
qed

lemma distinct_keys_sort:
  "distinct (map k (sort_key f xs)) \<longleftrightarrow> distinct (map k xs)"
  by (simp add: distinct_map)

text \<open>
  Claim C10. When the current selection is sorted ascending by time and has no two entries
  on the same calendar day, the list the date-click handler produces is again sorted
  ascending with no two entries on the same day; the clicked day is selected in it exactly
  when it was not selected before; and the entries on every other day are the same, in the
  same order.
\<close>

theorem handleDateClick_toggles:
  assumes "sorted (map getTime sel)" and "no_two_same_day tz sel"
  shows "sorted (map getTime (handleDateClick tz sel day)) \<and>
         no_two_same_day tz (handleDateClick tz sel day) \<and>
         (selected tz (handleDateClick tz sel day) day \<longleftrightarrow> \<not> selected tz sel day) \<and>
         filter (\<lambda>d. \<not> isSameDay tz d day) (handleDateClick tz sel day)
           = filter (\<lambda>d. \<not> isSameDay tz d day) sel"
proof (cases "selected tz sel day")
  case True
  let ?rest = "filter (\<lambda>d. \<not> isSameDay tz d day) sel"
  from assms(1) have "sorted (map getTime ?rest)"
    by (simp add: sorted_filter)
  then have "sort_key getTime ?rest = ?rest"
    by (rule sort_key_id_if_sorted)
  with handleDateClick_present [OF assms(2) True]
  have res: "handleDateClick tz sel day = ?rest" by simp
  from assms(2) have "distinct (map (day_key tz) ?rest)"
    by (simp add: no_two_same_day_distinct distinct_map_filter)
  then have "no_two_same_day tz ?rest"
    by (simp add: no_two_same_day_distinct)
  moreover have "\<not> selected tz ?rest day"
    by (simp add: selected_def list_ex_iff)
  ultimately show ?thesis
    using res True \<open>sorted (map getTime ?rest)\<close> by simp
next
  case False
  from handleDateClick_absent [OF False]
  have res: "handleDateClick tz sel day = sort_key getTime (sel @ [day])" .
  from False have nokey: "day_key tz day \<notin> day_key tz ` set sel"
    by (auto simp: selected_def list_ex_iff isSameDay_key)
  with assms(2) have "distinct (map (day_key tz) (sel @ [day]))"
    by (simp add: no_two_same_day_distinct)
  then have nodup: "no_two_same_day tz (sort_key getTime (sel @ [day]))"
    by (simp only: no_two_same_day_distinct distinct_keys_sort)
  have "isSameDay tz day day" by (simp add: isSameDay_key)
  then have now: "selected tz (sort_key getTime (sel @ [day])) day"
    by (auto simp: selected_def list_ex_iff)
  from False have keep: "filter (\<lambda>d. \<not> isSameDay tz d day) sel = sel"
    by (simp add: selected_def list_ex_iff)
  have "filter (\<lambda>d. \<not> isSameDay tz d day) (sort_key getTime (sel @ [day]))
        = sort_key getTime (filter (\<lambda>d. \<not> isSameDay tz d day) (sel @ [day]))"
    by (rule filter_sort)
  also have "\<dots> = sort_key getTime sel"
    using keep \<open>isSameDay tz day day\<close> by simp
  also have "\<dots> = sel"
    using assms(1) by (rule sort_key_id_if_sorted)
  finally have others: "filter (\<lambda>d. \<not> isSameDay tz d day) (sort_key getTime (sel @ [day]))
        = filter (\<lambda>d. \<not> isSameDay tz d day) sel"
    using keep by simp
  show ?thesis
    using res nodup now False others by (simp add: sorted_sort_key)
qed

theorem handleDateClick_toggles_witness:
  "sorted (map getTime [Date 0, Date 172800000]) \<and>
   no_two_same_day utc_days [Date 0, Date 172800000] \<and>
   handleDateClick utc_days [Date 0, Date 172800000] (Date 86400000)
     = [Date 0, Date 86400000, Date 172800000] \<and>
   selected utc_days (handleDateClick utc_days [Date 0, Date 172800000] (Date 86400000))
     (Date 86400000) \<and>
   \<not> selected utc_days [Date 0, Date 172800000] (Date 86400000)"
proof -
  have h1: "sorted (map getTime [Date 0, Date 172800000])" by simp
  have h2: "no_two_same_day utc_days [Date 0, Date 172800000]"
    by (simp add: isSameDay_def getFullYear_def getMonth_def getDate_def utc_days_def)
  have ev: "handleDateClick utc_days [Date 0, Date 172800000] (Date 86400000)
     = [Date 0, Date 86400000, Date 172800000]"
    by (simp add: handleDateClick_def findIndex_def filter_indexed_def isSameDay_def
        getFullYear_def getMonth_def getDate_def utc_days_def)
  have before: "\<not> selected utc_days [Date 0, Date 172800000] (Date 86400000)"
    by (simp add: selected_def isSameDay_def getFullYear_def getMonth_def getDate_def
        utc_days_def)
  from handleDateClick_toggles [OF h1 h2, of "Date 86400000"] before
  have "selected utc_days (handleDateClick utc_days [Date 0, Date 172800000] (Date 86400000))
     (Date 86400000)" by blast
  with h1 h2 ev before show ?thesis by blast
qed

section \<open>Proofs: the graph\<close>

lemma run_from_END: "run_from e END w s = ([], w, Inr s)"
  by (simp add: run_from.simps)

lemma run_from_step:
  "n \<noteq> END \<Longrightarrow> run_from e n w s =
     (case exec_node e n w s of
        (w', Inl err) \<Rightarrow> ([n], w', Inl err)
      | (w', Inr s') \<Rightarrow> (case run_from e (next_node n s') w' s' of (tr, r) \<Rightarrow> (n # tr, r)))"
  by (subst run_from.simps) simp

lemma route_calc:
  "request_type s = ''tfl_calculation'' \<Longrightarrow>
   next_node N_route_request (route_request s) = N_calculate_cost"
  by (simp add: route_request_def route_decision_def conditional_edges_def)

lemma invoke_calculation:
  assumes "request_type (receive_query s) = ''tfl_calculation''"
  shows "invoke e w s =
    (case calculate_cost e w (route_request (receive_query s)) of
       Inl err \<Rightarrow> ([N_receive_query, N_route_request, N_calculate_cost], w, Inl err)
     | Inr s' \<Rightarrow> ([N_receive_query, N_route_request, N_calculate_cost], w, Inr s'))"
  using route_calc [OF assms]
  by (simp add: invoke_def run_from_step run_from_END split: sum.splits)

text \<open>
  Claim C6. A request that \<open>receive_query\<close> classifies as a calculation runs
  \<open>receive_query\<close>, \<open>route_request\<close> and \<open>calculate_cost\<close> and then ends: the
  node \<open>generate_response\<close> is not executed, and no prompt is sent to the language
  model.
\<close>

theorem calculation_skips_generation:
  assumes "request_type (receive_query s) = ''tfl_calculation''"
  shows "trace_of (invoke e w s) = [N_receive_query, N_route_request, N_calculate_cost] \<and>
         N_generate_response \<notin> set (trace_of (invoke e w s)) \<and>
         llm_calls (world_of (invoke e w s)) = llm_calls w"
  by (simp add: invoke_calculation [OF assms] trace_of_def world_of_def split: sum.splits)

lemma rq: "request_type (receive_query calc_input) = ''tfl_calculation''"
  by (simp add: receive_query_def calc_input_def state0_def Let_def)

theorem calculation_skips_generation_witness:
  "request_type (receive_query calc_input) = ''tfl_calculation'' \<and>
   trace_of (invoke env0 world0 calc_input) = [N_receive_query, N_route_request, N_calculate_cost] \<and>
   llm_calls (world_of (invoke env0 world0 calc_input)) = []"
  using calculation_skips_generation [OF rq, of env0 world0] rq
  by (simp add: world0_def)

(* chat paths *)
lemma route_other:
  "request_type s \<noteq> ''tfl_calculation'' \<Longrightarrow>
   next_node N_route_request (route_request s) =
     (if request_type s = ''tfl_invoice'' \<or> request_type s = ''tfl_chat'' then N_generate_response else N_retrieve_documents)"
  by (simp add: route_request_def route_decision_def conditional_edges_def)

lemma invoke_chat:
  assumes "request_type (receive_query s) \<noteq> ''tfl_calculation''"
  shows "invoke e w s =
    (let s2 = route_request (receive_query s) in
     if request_type (receive_query s) = ''tfl_invoice'' \<or> request_type (receive_query s) = ''tfl_chat''
     then ([N_receive_query, N_route_request, N_generate_response],
           fst (generate_response e w s2), Inr (snd (generate_response e w s2)))
     else (let s4 = format_context e (retrieve_documents e w s2) in
          ([N_receive_query, N_route_request, N_retrieve_documents, N_format_context, N_generate_response],
           fst (generate_response e w s4), Inr (snd (generate_response e w s4)))))"
  using route_other [OF assms]
  by (simp add: invoke_def run_from_step run_from_END Let_def split: prod.splits)


lemma receive_query_frame:
  "messages (receive_query s) = messages s \<and> memory (receive_query s) = memory s \<and>
   invoice_id (receive_query s) = invoice_id s \<and> selected_dates (receive_query s) = selected_dates s"
  by (simp add: receive_query_def Let_def)

lemma route_request_frame:
  "messages (route_request s) = messages s \<and> memory (route_request s) = memory s \<and>
   invoice_id (route_request s) = invoice_id s \<and> selected_dates (route_request s) = selected_dates s \<and>
   query (route_request s) = query s"
  by (simp add: route_request_def Let_def)

lemma calculate_cost_frame:
  "calculate_cost e w s = Inr s' \<Longrightarrow> messages s' = messages s \<and> memory s' = memory s"
  by (auto simp: calculate_cost_def missing_error_def Let_def split: option.splits if_splits sum.splits)

lemma generate_response_frame:
  "memory (snd (generate_response e w s)) = memory s \<and>
   messages (snd (generate_response e w s)) = messages s @ [AIMessage (response (snd (generate_response e w s)))] \<and>
   conversation_memory (fst (generate_response e w s)) = conversation_memory w \<and>
   llm_calls (fst (generate_response e w s)) = llm_calls w @ [last (llm_calls (fst (generate_response e w s)))]"
  by (simp add: generate_response_def Let_def)

lemma retrieve_format_frame:
  "memory (format_context e (retrieve_documents e w s)) = memory s \<and>
   messages (format_context e (retrieve_documents e w s)) = messages s"
  by (simp add: format_context_def retrieve_documents_def Let_def)

text \<open>
  Claim C7, as amended. No path of the graph writes conversational memory: after any
  request the collection \<open>conversation_memory\<close> and the \<open>memory\<close> field of the state
  are what they were. The only record of the exchange is the \<open>messages\<close> list: a
  calculation request leaves it unchanged, and every other request appends the generated
  answer to it.
\<close>

theorem memory_never_written:
  "conversation_memory (world_of (invoke e w s)) = conversation_memory w \<and>
   (case result_of (invoke e w s) of
      Inl err \<Rightarrow> True
    | Inr s' \<Rightarrow>
        memory s' = memory s \<and>
        messages s' =
          (if request_type (receive_query s) = ''tfl_calculation'' then messages s
           else messages s @ [AIMessage (response s')]))"
proof (cases "request_type (receive_query s) = ''tfl_calculation''")
  case True
  show ?thesis
  proof (cases "calculate_cost e w (route_request (receive_query s))")
    case (Inl err)
    with True show ?thesis
      by (simp add: invoke_calculation world_of_def result_of_def)
  next
    case (Inr s')
    from calculate_cost_frame [OF Inr] have "messages s' = messages s \<and> memory s' = memory s"
      by (simp add: receive_query_frame route_request_frame)
    with True Inr show ?thesis
      by (simp add: invoke_calculation world_of_def result_of_def)
  qed
next
  case False
  show ?thesis
  proof (cases "request_type (receive_query s) = ''tfl_invoice'' \<or> request_type (receive_query s) = ''tfl_chat''")
    case True
    with False show ?thesis
      using generate_response_frame [of e w "route_request (receive_query s)"]
      by (simp add: invoke_chat world_of_def result_of_def Let_def
          receive_query_frame route_request_frame)
  next
    case other: False
    with False show ?thesis
      using generate_response_frame [of e w "format_context e (retrieve_documents e w (route_request (receive_query s)))"]
      by (simp add: invoke_chat world_of_def result_of_def Let_def
          receive_query_frame route_request_frame retrieve_format_frame)
  qed
qed

lemma chat_rq: "request_type (receive_query chat_input) = ''tfl_chat''"
  by (simp add: receive_query_def chat_input_def state0_def Let_def lower_def lower_char_def truthy_def)

text \<open>
  The claim C7 as stated fails: after a chat request about an invoice has been answered,
  the memory of the state is still empty and the memory collection holds no point.
\<close>

theorem chat_turn_not_stored:
  "(case result_of (invoke env0 world0 chat_input) of
      Inl err \<Rightarrow> False
    | Inr s' \<Rightarrow> response s' = ''ok'' \<and> dom (memory s') = {}) \<and>
   conversation_memory (world_of (invoke env0 world0 chat_input)) = [] \<and>
   length (llm_calls (world_of (invoke env0 world0 chat_input))) = 1"
proof -
  have ne: "request_type (receive_query chat_input) \<noteq> ''tfl_calculation''"
    by (simp add: chat_rq)
  show ?thesis
    by (simp add: invoke_chat [OF ne] chat_rq world_of_def result_of_def Let_def
        generate_response_def env0_def world0_def route_request_def receive_query_frame)
       (simp add: chat_input_def state0_def)
qed

text \<open>
  Claim C2, as amended. Without a message \<open>receive_query\<close> returns the state
  unchanged. With one, a non-empty date selection makes the request a calculation, whatever
  the query says; otherwise a query that mentions "invoice" (in any case) or a present
  invoice id makes it an invoice chat; otherwise it is a general document chat. It never
  classifies a request as an invoice upload, and no request type stands for the combined
  kind; the request is routed to \<open>calculate_cost\<close> exactly when dates are selected.
  \<open>route_request\<close> maps the four request types to their four paths.
\<close>

theorem receive_query_precedence:
  "(messages s = [] \<longrightarrow> receive_query s = s) \<and>
   (messages s \<noteq> [] \<longrightarrow>
      query (receive_query s) = content (last (messages s)) \<and>
      request_type (receive_query s) =
        (if selected_dates s \<noteq> [] then ''tfl_calculation''
         else if contains (lower (content (last (messages s)))) ''invoice'' \<or> truthy (invoice_id s)
           then ''tfl_chat''
         else ''general_rag'') \<and>
      request_type (receive_query s) \<noteq> ''tfl_invoice'' \<and>
      kind_of (request_type (receive_query s)) \<noteq> None \<and>
      kind_of (request_type (receive_query s)) \<noteq> Some combinedCalculationAndChat \<and>
      (route_path (route_request (receive_query s)) = Some ''calculate_cost''
         \<longleftrightarrow> selected_dates s \<noteq> [])) \<and>
   route_path (route_request s) =
     (if request_type s = ''tfl_invoice'' then Some ''process_tfl_invoice''
      else if request_type s = ''tfl_calculation'' then Some ''calculate_cost''
      else if request_type s = ''tfl_chat'' then Some ''tfl_chat''
      else Some ''rag_flow'')"
proof (intro conjI impI)
  assume "messages s = []"
  then show "receive_query s = s" by (simp add: receive_query_def)
next
  assume ne: "messages s \<noteq> []"
  then show "query (receive_query s) = content (last (messages s))"
    by (simp add: receive_query_def Let_def)
  from ne show ty: "request_type (receive_query s) =
        (if selected_dates s \<noteq> [] then ''tfl_calculation''
         else if contains (lower (content (last (messages s)))) ''invoice'' \<or> truthy (invoice_id s)
           then ''tfl_chat''
         else ''general_rag'')"
    by (simp add: receive_query_def Let_def)
  from ty show "request_type (receive_query s) \<noteq> ''tfl_invoice''"
    by (simp split: if_splits)
  from ty show "kind_of (request_type (receive_query s)) \<noteq> None"
    by (simp add: kind_of_def split: if_splits)
  from ty show "kind_of (request_type (receive_query s)) \<noteq> Some combinedCalculationAndChat"
    by (simp add: kind_of_def split: if_splits)
  from ty show "route_path (route_request (receive_query s)) = Some ''calculate_cost''
      \<longleftrightarrow> selected_dates s \<noteq> []"
    by (simp add: route_request_def split: if_splits)
next
  show "route_path (route_request s) =
     (if request_type s = ''tfl_invoice'' then Some ''process_tfl_invoice''
      else if request_type s = ''tfl_calculation'' then Some ''calculate_cost''
      else if request_type s = ''tfl_chat'' then Some ''tfl_chat''
      else Some ''rag_flow'')"
    by (simp add: route_request_def)
qed

text \<open>
  The claim C2 as stated fails on the notebook's own calculation input, which carries a
  free-text query, an invoice id and two dates: the code classifies it as a calculation,
  where the rule of the specification gives an invoice chat (or the combined kind, if the
  request is not counted as being in a chat context).
\<close>

theorem dates_override_chat:
  "request_type (receive_query calc_input) = ''tfl_calculation'' \<and>
   kind_of (request_type (receive_query calc_input)) = Some costCalculation \<and>
   route_path (route_request (receive_query calc_input)) = Some ''calculate_cost'' \<and>
   spec_classify (carried_by calc_input True) = Some invoiceChat \<and>
   spec_classify (carried_by calc_input False) = Some combinedCalculationAndChat"
  by (simp add: rq kind_of_def route_request_def spec_classify_def carried_by_def)
     (simp add: calc_input_def state0_def truthy_def)

theorem receive_query_precedence_witness:
  "messages calc_input \<noteq> [] \<and> request_type (receive_query calc_input) = ''tfl_calculation''
   \<and> messages state0 = [] \<and> receive_query state0 = state0"
  using receive_query_precedence [of calc_input] receive_query_precedence [of state0]
  by (simp add: calc_input_def state0_def)

section \<open>Proofs: the cost calculation\<close>

lemmas ledger_defs = ledger_def world0_def stored_def txn_def str_nat.simps digit_char_def

text \<open>
  The claim C3 as stated fails: with fares stored on 15 and 16 January and the selection
  15 and 17 January, the breakdown has the entry of the 15th and no entry at all for the
  17th (no zero total), and it has no field that lists unmatched dates.
\<close>

theorem unmatched_date_not_reported:
  "(case calculate_cost env0 ledger selection_A of
      Inl err \<Rightarrow> False
    | Inr s' \<Rightarrow>
        daily_total s' ''2024-01-15'' = Some (Fl (1080 / 100)) \<and>
        daily_total s' ''2024-01-17'' = None \<and>
        map_option total_amount (cost_breakdown s') = Some (Fl (1080 / 100)) \<and>
        map_option transactions_count (cost_breakdown s') = Some 2)"
  by (simp add: calculate_cost_def selection_A_def calc_input_def state0_def ledger_defs scroll_def matches_def
      date_in_def float_get_def daily_total_def round_half_even_def Let_def)

text \<open>
  The claim C4 as stated fails: with an empty selection the node answers with its error
  message and produces no breakdown and no amount.
\<close>

theorem empty_selection_rejected:
  "(case calculate_cost env0 ledger (calc_input\<lparr>selected_dates := []\<rparr>) of
      Inl err \<Rightarrow> False
    | Inr s' \<Rightarrow>
        response s' = ''Error: Missing invoice_id or selected_dates'' \<and>
        cost_breakdown s' = None \<and> calculated_amount s' = None)"
  by (simp add: calculate_cost_def calc_input_def state0_def missing_error_def)

lemma isin_empty: "isin v [] = False"
  by (simp add: isin_def split: pyval.splits)

text \<open>
  Claim C4, as amended. Whatever is stored, the node \<open>calculate_cost\<close> answers an empty
  selection with the response "Error: Missing invoice_id or selected_dates" and changes
  nothing else in the state; the endpoint \<open>/api/transport/calculate\<close> returns a total of
  zero and an empty breakdown for it.
\<close>

theorem empty_selection_is_error:
  "calculate_cost e w (s\<lparr>selected_dates := []\<rparr>)
     = Inr (s\<lparr>selected_dates := [], response := ''Error: Missing invoice_id or selected_dates''\<rparr>) \<and>
   calculate_cost_api df []
     = \<lparr>total_cost = Fl 0, breakdown_by_date = Map.empty, echoed_dates = []\<rparr>"
  by (simp add: calculate_cost_def missing_error_def calculate_cost_api_def pandas_sum_def
      py_sum_def groupby_sum_def round_half_even_def fun_eq_iff isin_empty Let_def
      split: option.splits)

text \<open>
  The claim C5 as stated fails for the calculation of the frontend: with the same file and
  the same selected date, two calls give different totals when \<open>Math.random()\<close> returns
  different values.
\<close>

theorem mock_total_is_random:
  "totalCost (fst (handleCalculate calculator0 0)) = Some (575 / 100) \<and>
   totalCost (fst (handleCalculate calculator0 (1 / 2))) = Some (1075 / 100)"
  by (simp add: handleCalculate_def calculator0_def)


lemma numeric_float_get: "numeric t \<Longrightarrow> \<exists>x. float_get e t ''amount'' = Inr x"
  by (auto simp: numeric_def float_get_def split: option.splits pyval.splits)

lemma sum_amounts_total:
  "list_all numeric ts \<Longrightarrow> \<exists>x. sum_amounts e ts acc = Inr x"
proof (induction ts arbitrary: acc)
  case Nil
  then show ?case by simp
next
  case (Cons t ts)
  from Cons.prems have "numeric t" and rest: "list_all numeric ts" by simp_all
  from numeric_float_get [OF \<open>numeric t\<close>, of e] obtain x
    where x: "float_get e t ''amount'' = Inr x" by blast
  from Cons.IH [OF rest, of "fadd acc x"] x show ?case by simp
qed

lemma per_day_loop_keys:
  "list_all numeric ts \<Longrightarrow>
   \<exists>m'. per_day_loop e ts m = Inr m' \<and>
        (\<forall>d. m' d = None \<longleftrightarrow> (m d = None \<and> \<not> list_ex (\<lambda>t. t ''date'' = Some (PStr d)) ts))"
proof (induction ts arbitrary: m)
  case Nil
  then show ?case by simp
next
  case (Cons t ts)
  from Cons.prems have "numeric t" and rest: "list_all numeric ts" by simp_all
  from numeric_float_get [OF \<open>numeric t\<close>, of e] obtain x
    where x: "float_get e t ''amount'' = Inr x" by blast
  show ?case
  proof (cases "\<exists>date. t ''date'' = Some (PStr date)")
    case True
    then obtain date where date: "t ''date'' = Some (PStr date)" by blast
    let ?m1 = "if m date = None then m(date \<mapsto> Fl 0) else m"
    let ?m2 = "?m1(date \<mapsto> fadd (case ?m1 date of None \<Rightarrow> Fl 0 | Some v \<Rightarrow> v) x)"
    from Cons.IH [OF rest, of ?m2] obtain m'
      where m': "per_day_loop e ts ?m2 = Inr m'"
        and keys: "\<forall>d. m' d = None \<longleftrightarrow> (?m2 d = None \<and> \<not> list_ex (\<lambda>t. t ''date'' = Some (PStr d)) ts)"
      by blast
    have run: "per_day_loop e (t # ts) m = Inr m'"
      using date x m' by (simp add: Let_def)
    have "\<forall>d. m' d = None \<longleftrightarrow> (m d = None \<and> \<not> list_ex (\<lambda>t. t ''date'' = Some (PStr d)) (t # ts))"
      using keys date by (auto split: if_splits)
    with run show ?thesis by blast
  next
    case False
    then have step: "per_day_loop e (t # ts) m = per_day_loop e ts m"
      by (auto split: option.splits pyval.splits)
    from False have "\<And>d. t ''date'' \<noteq> Some (PStr d)" by blast
    with Cons.IH [OF rest, of m] step show ?thesis by auto
  qed
qed

lemma filtered_numeric:
  "numeric_amounts coll \<Longrightarrow>
   list_all numeric (filter P (map payload (scroll coll must limit)))"
  by (auto simp: numeric_amounts_def list_all_iff scroll_def dest: in_set_takeD)

lemma filtered_no_date:
  assumes "\<not> has_transaction coll i d"
  shows "\<not> list_ex (\<lambda>t. t ''date'' = Some (PStr d))
           (filter P (map payload (scroll coll [(''invoice_id'', PStr i)] limit)))"
  using assms
  by (auto simp: has_transaction_def list_ex_iff scroll_def matches_def dest!: in_set_takeD)

lemma groupby_none:
  "\<not> list_ex (\<lambda>r. fst r = PStr d) df \<Longrightarrow>
   breakdown_by_date (calculate_cost_api df dates) d = None"
  by (auto simp: calculate_cost_api_def groupby_sum_def Let_def list_ex_iff)

text \<open>
  Claim C3, as amended. When the stored amounts are numeric, a selected date on which the
  invoice has no transaction is not an error: the node returns a breakdown, in which that
  date has no entry, and the response reports the total. The endpoint
  \<open>/api/transport/calculate\<close> likewise has no entry for such a date and echoes the
  selected dates.
\<close>

theorem unmatched_date_has_no_entry:
  assumes "invoice_id s = Some i" and "i \<noteq> []" and "d \<in> set (selected_dates s)"
    and "numeric_amounts (tfl_invoices w)"
    and "\<not> has_transaction (tfl_invoices w) i d"
    and "\<not> list_ex (\<lambda>r. fst r = PStr d) df"
  shows "(\<exists>s' b. calculate_cost e w s = Inr s' \<and> cost_breakdown s' = Some b \<and>
            per_day_breakdown b d = None \<and>
            response s' = ''Total cost for selected dates: '' @ pound @ str_pyfloat e (total_amount b)) \<and>
         breakdown_by_date (calculate_cost_api df (selected_dates s)) d = None \<and>
         echoed_dates (calculate_cost_api df (selected_dates s)) = selected_dates s"
proof -
  let ?filtered = "filter (\<lambda>t. date_in t (selected_dates s))
      (map payload (scroll (tfl_invoices w) [(''invoice_id'', PStr i)] 1000))"
  from assms(3) have ne: "selected_dates s \<noteq> []" by auto
  have num: "list_all numeric ?filtered"
    using assms(4) by (rule filtered_numeric)
  from sum_amounts_total [OF num, of e "Fl 0"] obtain tot
    where tot: "sum_amounts e ?filtered (Fl 0) = Inr tot" by blast
  from per_day_loop_keys [OF num, of e Map.empty] obtain m'
    where m': "per_day_loop e ?filtered Map.empty = Inr m'"
      and keys: "\<forall>d. m' d = None \<longleftrightarrow> \<not> list_ex (\<lambda>t. t ''date'' = Some (PStr d)) ?filtered"
    by auto
  from filtered_no_date [OF assms(5)] keys have "m' d = None" by blast
  then have node: "\<exists>s' b. calculate_cost e w s = Inr s' \<and> cost_breakdown s' = Some b \<and>
            per_day_breakdown b d = None \<and>
            response s' = ''Total cost for selected dates: '' @ pound @ str_pyfloat e (total_amount b)"
    using assms(1,2) ne tot m' by (simp add: calculate_cost_def Let_def)
  have "echoed_dates (calculate_cost_api df (selected_dates s)) = selected_dates s"
    by (simp add: calculate_cost_api_def Let_def)
  with node groupby_none [OF assms(6)] show ?thesis by blast
qed

lemma scroll_payloads:
  "map payload (scroll (tfl_invoices w) [(''invoice_id'', PStr i)] n)
     = take n (invoice_transactions w i)"
  by (simp add: scroll_def invoice_transactions_def take_map)

text \<open>
  Claim C5, as amended. What the node \<open>calculate_cost\<close> reports is determined by the
  invoice id, the selected dates, the stored transactions of that invoice and the amount and
  breakdown already in the state: two runs that agree on these report the same, whatever
  else differs in the state or in the store. The total of the frontend's
  \<open>handleCalculate\<close> is 5.75 per selected date plus ten times the value drawn from
  \<open>Math.random()\<close>.
\<close>

theorem calculation_depends_on_inputs_only:
  assumes "invoice_id s1 = invoice_id s2" and "selected_dates s1 = selected_dates s2"
    and "calculated_amount s1 = calculated_amount s2" and "cost_breakdown s1 = cost_breakdown s2"
    and "\<And>i. invoice_id s1 = Some i \<Longrightarrow> invoice_transactions w1 i = invoice_transactions w2 i"
  shows "outputs (calculate_cost e w1 s1) = outputs (calculate_cost e w2 s2) \<and>
         totalCost (fst (handleCalculate c rnd)) =
           (if uploadedFile c = None \<or> selectedDates c = [] then totalCost c
            else Some (of_nat (length (selectedDates c)) * (575 / 100) + rnd * 10))"
proof -
  have "outputs (calculate_cost e w1 s1) = outputs (calculate_cost e w2 s2)"
  proof (cases "invoice_id s1")
    case None
    with assms show ?thesis
      by (simp add: calculate_cost_def outputs_def missing_error_def)
  next
    case (Some i)
    with assms(5) have "invoice_transactions w1 i = invoice_transactions w2 i" by simp
    then have "map payload (scroll (tfl_invoices w1) [(''invoice_id'', PStr i)] 1000)
        = map payload (scroll (tfl_invoices w2) [(''invoice_id'', PStr i)] 1000)"
      by (simp add: scroll_payloads)
    with Some assms(1-4) show ?thesis
      by (simp add: calculate_cost_def outputs_def missing_error_def Let_def
          split: sum.splits)
  qed
  then show ?thesis by (simp add: handleCalculate_def)
qed


theorem unmatched_date_has_no_entry_witness:
  "invoice_id selection_A = Some ''invoice_001'' \<and>
   ''2024-01-17'' \<in> set (selected_dates selection_A) \<and>
   numeric_amounts (tfl_invoices ledger) \<and>
   \<not> has_transaction (tfl_invoices ledger) ''invoice_001'' ''2024-01-17'' \<and>
   (\<exists>s' b. calculate_cost env0 ledger selection_A = Inr s' \<and> cost_breakdown s' = Some b \<and>
      per_day_breakdown b ''2024-01-17'' = None) \<and>
   breakdown_by_date
     (calculate_cost_api [(PStr ''2024-01-15'', Fl (850 / 100))] (selected_dates selection_A))
     ''2024-01-17'' = None"
proof -
  have h1: "invoice_id selection_A = Some ''invoice_001''"
    by (simp add: selection_A_def calc_input_def state0_def)
  have h2: "''invoice_001'' \<noteq> []" by simp
  have h3: "''2024-01-17'' \<in> set (selected_dates selection_A)"
    by (simp add: selection_A_def calc_input_def state0_def)
  have h4: "numeric_amounts (tfl_invoices ledger)"
    by (simp add: numeric_amounts_def numeric_def ledger_defs)
  have h5: "\<not> has_transaction (tfl_invoices ledger) ''invoice_001'' ''2024-01-17''"
    by (simp add: has_transaction_def ledger_defs)
  have h6: "\<not> list_ex (\<lambda>r. fst r = PStr ''2024-01-17'') [(PStr ''2024-01-15'', Fl (850 / 100))]"
    by simp
  from unmatched_date_has_no_entry [OF h1 h2 h3 h4 h5 h6, of env0] h1 h3 h4 h5
  show ?thesis by blast
qed

theorem calculation_depends_on_inputs_only_witness:
  "invoice_transactions ledger ''invoice_001'' = invoice_transactions ledger2 ''invoice_001'' \<and>
   tfl_invoices ledger \<noteq> tfl_invoices ledger2 \<and>
   outputs (calculate_cost env0 ledger selection_A)
     = outputs (calculate_cost env0 ledger2 (selection_A\<lparr>messages := [], query := ''other''\<rparr>))"
proof -
  have same: "invoice_transactions ledger ''invoice_001'' = invoice_transactions ledger2 ''invoice_001''"
    by (simp add: invoice_transactions_def ledger2_def matches_def ledger_defs)
  have inv: "invoice_id selection_A = Some ''invoice_001''"
    by (simp add: selection_A_def calc_input_def state0_def)
  have differ: "tfl_invoices ledger \<noteq> tfl_invoices ledger2"
    by (simp add: ledger2_def)
  have "outputs (calculate_cost env0 ledger selection_A)
     = outputs (calculate_cost env0 ledger2 (selection_A\<lparr>messages := [], query := ''other''\<rparr>))"
    using calculation_depends_on_inputs_only
      [of selection_A "selection_A\<lparr>messages := [], query := ''other''\<rparr>" ledger ledger2 env0]
      same inv by simp
  with same differ show ?thesis by blast
qed

section \<open>Proofs: parsing and storing an invoice\<close>

lemmas upload_defs = upload_invoice_def endswith_def upload_row_def float_get_def
  get_default_def py_str_def str_pyfloat_def embedding_text_def str_item_def
  upload_invoice_id_def or_default_def truthy_def str_nat.simps digit_char_def upsert_def
  env0_def world0_def rows3_def Let_def

text \<open>
  The claim C8 as stated fails: a frame of three rows whose second row has an empty amount
  cell is uploaded as three transactions, and \<open>parse_csv_invoice\<close> returns three as
  well; nothing is dropped and no count of skipped rows is kept.
\<close>

theorem row_without_amount_is_kept:
  "snd (upload_invoice env0 world0 ''invoice.csv'' rows3 (Some ''test_user'') 1000)
     = Inr (Uploaded ''invoice_test_user_1000'' 3) \<and>
   map_sum id length (parse_csv_invoice env0 (\<lambda>i. ''2024-02-01T10:00:00'') rows3) = Inr 3"
  by (simp add: upload_defs parse_csv_invoice_def parse_row_def float_item_def)

text \<open>
  The claim C9 as stated fails: the same file uploaded by the same user at two different
  seconds is stored under different point ids.
\<close>

theorem ids_change_with_the_clock:
  "map pid (tfl_invoices (fst (upload_invoice env0 world0 ''invoice.csv'' rows3 (Some ''test_user'') 1000)))
     = [''invoice_test_user_1000_0'', ''invoice_test_user_1000_1'', ''invoice_test_user_1000_2''] \<and>
   map pid (tfl_invoices (fst (upload_invoice env0 world0 ''invoice.csv'' rows3 (Some ''test_user'') 1001)))
     = [''invoice_test_user_1001_0'', ''invoice_test_user_1001_1'', ''invoice_test_user_1001_2'']"
  by (simp add: upload_defs)


lemma upload_rows_length: "upload_rows e df = Inr ts \<Longrightarrow> length ts = length df"
  by (induction df arbitrary: ts) (auto split: sum.splits)

lemma parse_rows_length: "parse_rows e clock i df = Inr ts \<Longrightarrow> length ts = length df"
  by (induction df arbitrary: ts i) (auto split: sum.splits)

lemma bad_float_get: "bad_amount e row \<Longrightarrow> isl (float_get e row ''amount'')"
  by (auto simp: bad_amount_def float_get_def split: option.splits pyval.splits)

lemma bad_upload_row: "bad_amount e row \<Longrightarrow> isl (upload_row e row)"
  using bad_float_get [of e row] by (auto simp: upload_row_def split: sum.splits)

lemma bad_parse_row: "bad_amount e row \<Longrightarrow> isl (parse_row e now row)"
  using bad_float_get [of e row]
  by (auto simp: parse_row_def float_item_def split: sum.splits option.splits)

lemma upload_rows_bad: "list_ex (bad_amount e) df \<Longrightarrow> isl (upload_rows e df)"
proof (induction df)
  case Nil
  then show ?case by simp
next
  case (Cons row df)
  show ?case
  proof (cases "bad_amount e row")
    case True
    from bad_upload_row [OF True] show ?thesis by (auto split: sum.splits)
  next
    case False
    with Cons.prems have "list_ex (bad_amount e) df" by simp
    from Cons.IH [OF this] show ?thesis by (auto split: sum.splits)
  qed
qed

lemma parse_rows_bad: "list_ex (bad_amount e) df \<Longrightarrow> isl (parse_rows e clock i df)"
proof (induction df arbitrary: i)
  case Nil
  then show ?case by simp
next
  case (Cons row df)
  show ?case
  proof (cases "bad_amount e row")
    case True
    from bad_parse_row [OF True, of "clock i"] show ?thesis by (auto split: sum.splits)
  next
    case False
    with Cons.prems have "list_ex (bad_amount e) df" by simp
    from Cons.IH [OF this, of "i + 1"] show ?thesis by (auto split: sum.splits)
  qed
qed

lemma upload_count:
  "snd (upload_invoice e w filename df user_id now) = Inr (Uploaded i n) \<Longrightarrow> n = length df"
  by (auto simp: upload_invoice_def Let_def upload_rows_length split: if_splits sum.splits)

lemma upload_bad:
  "list_ex (bad_amount e) df \<Longrightarrow> endswith filename ''.csv'' \<Longrightarrow>
   isl (snd (upload_invoice e w filename df user_id now))"
  using upload_rows_bad [of e df]
  by (auto simp: upload_invoice_def Let_def split: sum.splits)

lemma nan_row_kept:
  "row ''amount'' = Some (PNum NaN) \<Longrightarrow>
   (case upload_row e row of Inl err \<Rightarrow> False | Inr t \<Rightarrow> t ''amount'' = Some (PNum NaN))"
  by (simp add: upload_row_def float_get_def)

text \<open>
  Claim C8, as amended. Parsing never drops a row: when \<open>parse_csv_invoice\<close> or the
  upload endpoint succeeds, it returns as many transactions as the frame has rows; a row
  whose amount cell is empty is kept, with the amount \<open>NaN\<close>; and one row whose amount
  is not a number makes the whole parse raise.
\<close>

theorem csv_rows_are_never_skipped:
  "(case parse_csv_invoice e clock df of Inl err \<Rightarrow> True | Inr ts \<Rightarrow> length ts = length df) \<and>
   (case snd (upload_invoice e w filename df user_id now) of
      Inr (Uploaded i n) \<Rightarrow> n = length df
    | _ \<Rightarrow> True) \<and>
   (row ''amount'' = Some (PNum NaN) \<longrightarrow>
      (case upload_row e row of Inl err \<Rightarrow> False | Inr t \<Rightarrow> t ''amount'' = Some (PNum NaN))) \<and>
   (list_ex (bad_amount e) df \<longrightarrow>
      isl (parse_csv_invoice e clock df) \<and>
      (endswith filename ''.csv'' \<longrightarrow> isl (snd (upload_invoice e w filename df user_id now))))"
proof -
  have a: "case parse_csv_invoice e clock df of Inl err \<Rightarrow> True | Inr ts \<Rightarrow> length ts = length df"
    by (auto simp: parse_csv_invoice_def parse_rows_length split: sum.splits)
  have b: "case snd (upload_invoice e w filename df user_id now) of
      Inr (Uploaded i n) \<Rightarrow> n = length df | _ \<Rightarrow> True"
    by (auto simp: upload_count split: sum.splits upload_response.splits)
  show ?thesis
    using a b nan_row_kept [of row e] parse_rows_bad [of e df clock 0] upload_bad [of e df filename w user_id now]
    by (simp add: parse_csv_invoice_def)
qed

theorem csv_rows_are_never_skipped_witness:
  "list_ex (bad_amount env0) rows_bad \<and> \<not> bad_amount env0 (rows_bad ! 0) \<and>
   endswith ''invoice.csv'' ''.csv'' \<and>
   isl (parse_csv_invoice env0 (\<lambda>i. ''2024-02-01T10:00:00'') rows_bad) \<and>
   isl (snd (upload_invoice env0 world0 ''invoice.csv'' rows_bad None 1000)) \<and>
   (case upload_row env0 (rows3 ! 1) of Inl err \<Rightarrow> False | Inr t \<Rightarrow> t ''amount'' = Some (PNum NaN))"
proof -
  have h1: "list_ex (bad_amount env0) rows_bad"
    by (simp add: bad_amount_def rows_bad_def env0_def)
  have h2: "endswith ''invoice.csv'' ''.csv''"
    by (simp add: endswith_def)
  have h3: "(rows3 ! 1) ''amount'' = Some (PNum NaN)"
    by (simp add: rows3_def)
  have h4: "\<not> bad_amount env0 (rows_bad ! 0)"
    by (simp add: bad_amount_def rows_bad_def env0_def)
  from csv_rows_are_never_skipped
    [where e = env0 and clock = "\<lambda>i. ''2024-02-01T10:00:00''" and df = rows_bad and w = world0
      and filename = "''invoice.csv''" and user_id = None and now = 1000 and row = "rows3 ! 1"]
    h1 h2 h3 h4
  show ?thesis by simp
qed

subsection \<open>Point ids\<close>

lemma digit_cases:
  "d < 10 \<Longrightarrow> d = 0 \<or> d = 1 \<or> d = 2 \<or> d = 3 \<or> d = 4 \<or> d = 5 \<or> d = 6 \<or> d = 7 \<or> d = 8 \<or> d = (9::nat)"
  by arith

lemma digit_char_inj: "a < 10 \<Longrightarrow> b < 10 \<Longrightarrow> digit_char a = digit_char b \<Longrightarrow> a = b"
  using digit_cases [of a] digit_cases [of b]
  by (auto simp: digit_char_def)

lemma digit_char_not_sep: "d < 10 \<Longrightarrow> digit_char d \<noteq> CHR ''_''"
  using digit_cases [of d] by (auto simp: digit_char_def)

lemma str_nat_not_empty: "str_nat n \<noteq> []"
  by (subst str_nat.simps) simp

lemma str_nat_no_sep: "CHR ''_'' \<notin> set (str_nat n)"
proof (induction n rule: str_nat.induct)
  case (1 n)
  show ?case
  proof (cases "n < 10")
    case True
    then show ?thesis
      using digit_char_not_sep [of n] by (subst str_nat.simps) auto
  next
    case False
    with "1.IH" have "CHR ''_'' \<notin> set (str_nat (n div 10))" by simp
    moreover have "digit_char (n mod 10) \<noteq> CHR ''_''"
      by (rule digit_char_not_sep) simp
    ultimately show ?thesis
      using False by (subst str_nat.simps) auto
  qed
qed

lemma str_nat_inj: "str_nat n = str_nat m \<Longrightarrow> n = m"
proof (induction n arbitrary: m rule: str_nat.induct)
  case (1 n)
  show ?case
  proof (cases "n < 10")
    case small: True
    show ?thesis
    proof (cases "m < 10")
      case True
      with small "1.prems" have "digit_char n = digit_char m"
        by (simp add: str_nat.simps)
      with small True show ?thesis by (rule digit_char_inj)
    next
      case False
      with small "1.prems" have "[digit_char n] = str_nat (m div 10) @ [digit_char (m mod 10)]"
        by (simp add: str_nat.simps)
      then have "str_nat (m div 10) = []" by simp
      with str_nat_not_empty show ?thesis by blast
    qed
  next
    case big: False
    show ?thesis
    proof (cases "m < 10")
      case True
      with big "1.prems" have "str_nat (n div 10) @ [digit_char (n mod 10)] = [digit_char m]"
        by (simp add: str_nat.simps)
      then have "str_nat (n div 10) = []" by simp
      with str_nat_not_empty show ?thesis by blast
    next
      case False
      with big "1.prems"
      have eq: "str_nat (n div 10) @ [digit_char (n mod 10)] = str_nat (m div 10) @ [digit_char (m mod 10)]"
        by (simp add: str_nat.simps)
      then have "str_nat (n div 10) = str_nat (m div 10)" and d: "digit_char (n mod 10) = digit_char (m mod 10)"
        by simp_all
      with "1.IH" [OF big] have q: "n div 10 = m div 10" by blast
      have "n mod 10 = m mod 10"
        by (rule digit_char_inj [OF _ _ d]) simp_all
      with q show ?thesis by (metis div_mult_mod_eq)
    qed
  qed
qed

lemma sep_split:
  assumes "a @ ''_'' @ b = c @ ''_'' @ d" and "CHR ''_'' \<notin> set a" and "CHR ''_'' \<notin> set c"
  shows "a = c"
proof -
  have "takeWhile (\<lambda>x. x \<noteq> CHR ''_'') (a @ ''_'' @ b) = a"
    using assms(2) by (auto simp: takeWhile_tail takeWhile_eq_all_conv)
  moreover have "takeWhile (\<lambda>x. x \<noteq> CHR ''_'') (c @ ''_'' @ d) = c"
    using assms(3) by (auto simp: takeWhile_tail takeWhile_eq_all_conv)
  ultimately show ?thesis using assms(1) by simp
qed

lemma point_ids_differ:
  assumes "upload_invoice_id u t1 @ ''_'' @ str_nat i = upload_invoice_id u t2 @ ''_'' @ str_nat j"
  shows "t1 = t2"
proof -
  from assms have "str_nat t1 @ ''_'' @ str_nat i = str_nat t2 @ ''_'' @ str_nat j"
    by (simp add: upload_invoice_id_def)
  then have "str_nat t1 = str_nat t2"
    by (rule sep_split) (rule str_nat_no_sep)+
  then show ?thesis by (rule str_nat_inj)
qed

lemma invoice_points_shape:
  "invoice_points e iid base i ts = Inr ps \<Longrightarrow>
   map pid ps = map (\<lambda>kt. iid @ ''_'' @ str_nat (fst kt)) (enumerate i ts) \<and>
   map vector ps = map (\<lambda>t. embed_query e (case embedding_text e t of Inr x \<Rightarrow> x | Inl err \<Rightarrow> [])) ts \<and>
   map payload ps = map (\<lambda>kt. base (fst kt) ++ snd kt) (enumerate i ts)"
proof (induction ts arbitrary: i ps)
  case Nil
  then show ?case by auto
next
  case (Cons t ts)
  from Cons.prems obtain x qs where x: "embedding_text e t = Inr x"
    and qs: "invoice_points e iid base (Suc i) ts = Inr qs"
    and ps: "ps = \<lparr>pid = iid @ ''_'' @ str_nat i, vector = embed_query e x, payload = base i ++ t\<rparr> # qs"
    by (auto split: sum.splits)
  from Cons.IH [OF qs] x ps show ?case by simp
qed

lemma invoice_points_total:
  "invoice_points e iid base i ts = Inr ps \<Longrightarrow> \<exists>qs. invoice_points e iid' base' i ts = Inr qs"
proof (induction ts arbitrary: i ps)
  case Nil
  then show ?case by simp
next
  case (Cons t ts)
  from Cons.prems obtain x rs where x: "embedding_text e t = Inr x"
    and rs: "invoice_points e iid base (i + 1) ts = Inr rs"
    by (auto split: sum.splits)
  from Cons.IH [OF rs] x show ?case by auto
qed


lemma map_enumerate_snd:
  "(\<And>k t. G (k, t) = H t) \<Longrightarrow> map G (enumerate i ts) = map H ts"
  by (induction ts arbitrary: i) simp_all

lemma map_enumerate_fst:
  "map (\<lambda>kt. F (fst kt)) (enumerate i ts) = map F [i..<i + length ts]"
proof -
  have "map (\<lambda>kt. F (fst kt)) (enumerate i ts) = map F (map fst (enumerate i ts))"
    by (simp only: map_map comp_def)
  then show ?thesis by (simp only: map_fst_enumerate)
qed

lemma upload_fields:
  assumes "invoice_points e iid (\<lambda>i. [''invoice_id'' \<mapsto> a, ''user_id'' \<mapsto> b]) i ts = Inr ps"
  shows "map fields_of ps = map (\<lambda>t. (t ''date'', t ''amount'', t ''journey_type'')) ts"
proof -
  let ?g = "\<lambda>m :: pydict. (m ''date'', m ''amount'', m ''journey_type'')"
  let ?base = "[''invoice_id'' \<mapsto> a, ''user_id'' \<mapsto> b]"
  have "map fields_of ps = map ?g (map payload ps)"
    by (simp add: fields_of_def comp_def)
  also have "map payload ps = map (\<lambda>kt. ?base ++ snd kt) (enumerate i ts)"
    using invoice_points_shape [OF assms] by simp
  finally have "map fields_of ps = map (\<lambda>kt. ?g (?base ++ snd kt)) (enumerate i ts)"
    by (simp only: map_map comp_def)
  also have "\<dots> = map ?g ts"
    by (rule map_enumerate_snd) (simp add: map_add_def split: option.splits)
  finally show ?thesis .
qed

lemma invoice_points_pids:
  assumes "invoice_points e iid base i ts = Inr ps"
  shows "map pid ps = map (\<lambda>k. iid @ ''_'' @ str_nat k) [i..<i + length ts]"
proof -
  from invoice_points_shape [OF assms]
  have "map pid ps = map (\<lambda>kt. iid @ ''_'' @ str_nat (fst kt)) (enumerate i ts)"
    by simp
  with map_enumerate_fst [of "\<lambda>k. iid @ ''_'' @ str_nat k" i ts] show ?thesis
    by simp
qed

lemma invoice_points_vectors:
  assumes "invoice_points e iid base i ts = Inr ps" and "invoice_points e iid' base' i ts = Inr qs"
  shows "map vector ps = map vector qs"
  using invoice_points_shape [OF assms(1)] invoice_points_shape [OF assms(2)] by simp

lemma upload_invoice_stores:
  "upload_points e df u t = Inr ps \<Longrightarrow> endswith filename ''.csv'' \<Longrightarrow>
   tfl_invoices (fst (upload_invoice e w filename df u t)) = upsert (tfl_invoices w) ps"
  by (auto simp: upload_invoice_def upload_points_def Let_def split: sum.splits)

text \<open>
  Claim C9, as amended. Uploading the same frame for the same user again succeeds again and
  produces points with the same vectors and the same date, amount and journey type, in the
  same order. The point ids are the invoice id, which contains the user and the clock in
  seconds, followed by the row index: at the same second the points are identical, and at
  different seconds no id of one upload is an id of the other.
\<close>

theorem upload_ids_follow_the_clock:
  assumes "upload_points e df u t1 = Inr ps1"
  shows "\<exists>ps2. upload_points e df u t2 = Inr ps2 \<and>
           map vector ps2 = map vector ps1 \<and>
           map fields_of ps2 = map fields_of ps1 \<and>
           map pid ps1 = map (\<lambda>i. upload_invoice_id u t1 @ ''_'' @ str_nat i) [0..<length df] \<and>
           (t2 = t1 \<longrightarrow> ps2 = ps1) \<and>
           (t2 \<noteq> t1 \<longrightarrow> set (map pid ps1) \<inter> set (map pid ps2) = {}) \<and>
           (endswith filename ''.csv'' \<longrightarrow>
              tfl_invoices (fst (upload_invoice e w filename df u t1)) = upsert (tfl_invoices w) ps1)"
proof -
  let ?base = "\<lambda>t i. [''invoice_id'' \<mapsto> PStr (upload_invoice_id u t), ''user_id'' \<mapsto> PStr (or_default u)]"
  from assms obtain ts where ts: "upload_rows e df = Inr ts"
    and p1: "invoice_points e (upload_invoice_id u t1) (?base t1) 0 ts = Inr ps1"
    by (auto simp: upload_points_def split: sum.splits)
  from invoice_points_total [OF p1, of "upload_invoice_id u t2" "?base t2"] obtain ps2
    where p2: "invoice_points e (upload_invoice_id u t2) (?base t2) 0 ts = Inr ps2" by blast
  from ts p2 have run2: "upload_points e df u t2 = Inr ps2"
    by (simp add: upload_points_def)
  have len: "length ts = length df" using ts by (rule upload_rows_length)
  have vec: "map vector ps2 = map vector ps1"
    using p2 p1 by (rule invoice_points_vectors)
  have fld: "map fields_of ps2 = map fields_of ps1"
    using upload_fields [OF p1] upload_fields [OF p2] by simp
  have id1: "map pid ps1 = map (\<lambda>i. upload_invoice_id u t1 @ ''_'' @ str_nat i) [0..<length df]"
    using invoice_points_pids [OF p1] len by simp
  have id2: "map pid ps2 = map (\<lambda>i. upload_invoice_id u t2 @ ''_'' @ str_nat i) [0..<length df]"
    using invoice_points_pids [OF p2] len by simp
  have same: "t2 = t1 \<longrightarrow> ps2 = ps1" using assms run2 by auto
  have disj: "t2 \<noteq> t1 \<longrightarrow> set (map pid ps1) \<inter> set (map pid ps2) = {}"
  proof
    assume ne: "t2 \<noteq> t1"
    show "set (map pid ps1) \<inter> set (map pid ps2) = {}"
    proof (rule ccontr)
      assume "set (map pid ps1) \<inter> set (map pid ps2) \<noteq> {}"
      then obtain x where x1: "x \<in> set (map pid ps1)" and x2: "x \<in> set (map pid ps2)" by blast
      from x1 id1 obtain i where i: "x = upload_invoice_id u t1 @ ''_'' @ str_nat i" by auto
      from x2 id2 obtain j where j: "x = upload_invoice_id u t2 @ ''_'' @ str_nat j" by auto
      from i j have "upload_invoice_id u t1 @ ''_'' @ str_nat i = upload_invoice_id u t2 @ ''_'' @ str_nat j"
        by simp
      then have "t1 = t2" by (rule point_ids_differ)
      with ne show False by simp
    qed
  qed
  have store: "endswith filename ''.csv'' \<longrightarrow>
      tfl_invoices (fst (upload_invoice e w filename df u t1)) = upsert (tfl_invoices w) ps1"
    using upload_invoice_stores [OF assms] by simp
  from run2 vec fld id1 same disj store show ?thesis by blast
qed

theorem upload_ids_follow_the_clock_witness:
  "\<exists>ps1 ps2. upload_points env0 rows3 (Some ''test_user'') 1000 = Inr ps1 \<and>
      upload_points env0 rows3 (Some ''test_user'') 1001 = Inr ps2 \<and>
      map fields_of ps2 = map fields_of ps1 \<and>
      set (map pid ps1) \<inter> set (map pid ps2) = {}"
proof -
  have "isl (upload_points env0 rows3 (Some ''test_user'') 1000) = False"
    by (simp add: upload_points_def upload_defs)
  then obtain ps1 where p1: "upload_points env0 rows3 (Some ''test_user'') 1000 = Inr ps1"
    by (cases "upload_points env0 rows3 (Some ''test_user'') 1000") auto
  from upload_ids_follow_the_clock
    [OF p1, where ?t2.0 = 1001 and filename = "''invoice.csv''" and w = world0] p1
  show ?thesis by auto
qed

section \<open>Proofs: retrieval\<close>

lemma search_all:
  "length coll \<le> limit \<Longrightarrow> fst ` set (search e coll qv limit) = set coll"
  by (force simp: search_def)

lemma upsert_point_keeps:
  "p \<in> set coll \<Longrightarrow> pid p \<noteq> pid new \<Longrightarrow> p \<in> set (upsert_point new coll)"
  by (induction coll) auto

lemma upsert_point_length: "length (upsert_point new coll) \<le> Suc (length coll)"
  by (induction coll) auto

text \<open>
  Claim C1, as amended. The similarity queries of the code are not scoped to an owner:
  \<open>retrieve_documents\<close> and the chat endpoint search the whole documents collection with
  a limit only (5 and 3) and filter nothing afterwards. The node returns as many documents
  as the limit and the collection allow, drawn from the whole collection; and when the
  collection is within the limit, every stored document is among the results of the node
  and of the endpoint, whoever stored it.
\<close>

theorem retrieval_ignores_owner:
  assumes "p \<in> set (documents w)"
  shows "length (retrieved_docs (retrieve_documents e w s)) = min 5 (length (documents w)) \<and>
         fst ` set (retrieved_docs (retrieve_documents e w s))
           \<subseteq> (\<lambda>d. get_default (payload d) ''text'' (PStr [])) ` set (documents w) \<and>
         (length (documents w) \<le> 5 \<longrightarrow>
            get_default (payload p) ''text'' (PStr []) \<in> fst ` set (retrieved_docs (retrieve_documents e w s))) \<and>
         (length (documents w) < 3 \<and> pid p \<noteq> chat_doc_id sid now \<longrightarrow>
            (case snd (chat e w contents message sid now) of
               Inl err \<Rightarrow> True
             | Inr r \<Rightarrow> p \<in> fst ` set (chat_results r)))"
proof (intro conjI impI)
  show "length (retrieved_docs (retrieve_documents e w s)) = min 5 (length (documents w))"
    by (simp add: retrieve_documents_def search_def Let_def min.commute)
next
  have "fst ` set (search e (documents w) (embed_query e (query s)) 5) \<subseteq> set (documents w)"
    by (force simp: search_def dest: in_set_takeD)
  then show "fst ` set (retrieved_docs (retrieve_documents e w s))
           \<subseteq> (\<lambda>d. get_default (payload d) ''text'' (PStr [])) ` set (documents w)"
    by (force simp: retrieve_documents_def Let_def)
next
  assume "length (documents w) \<le> 5"
  from search_all [OF this, of e "embed_query e (query s)"] assms
  have "p \<in> fst ` set (search e (documents w) (embed_query e (query s)) 5)" by simp
  then show "get_default (payload p) ''text'' (PStr []) \<in> fst ` set (retrieved_docs (retrieve_documents e w s))"
    by (force simp: retrieve_documents_def Let_def)
next
  assume a: "length (documents w) < 3 \<and> pid p \<noteq> chat_doc_id sid now"
  let ?new = "\<lparr>pid = chat_doc_id sid now, vector = embed_query e contents,
       payload = [''text'' \<mapsto> PStr contents, ''doc_id'' \<mapsto> PStr (chat_doc_id sid now),
                  ''session_id'' \<mapsto> (case sid of None \<Rightarrow> PNone | Some s \<Rightarrow> PStr s)]\<rparr>"
  let ?docs = "upsert_point ?new (documents w)"
  from a assms have "p \<in> set ?docs" by (simp add: upsert_point_keeps)
  moreover from a upsert_point_length [of ?new "documents w"] have "length ?docs \<le> 3" by simp
  ultimately have "p \<in> fst ` set (search e ?docs (embed_query e message) 3)"
    using search_all [of ?docs 3 e "embed_query e message"] by simp
  then show "case snd (chat e w contents message sid now) of
               Inl err \<Rightarrow> True
             | Inr r \<Rightarrow> p \<in> fst ` set (chat_results r)"
    by (auto simp: chat_def Let_def upsert_def split: sum.splits)
qed

theorem retrieval_ignores_owner_witness:
  "bob_doc \<in> set (documents bob_world) \<and>
   length (documents bob_world) < 3 \<and>
   pid bob_doc \<noteq> chat_doc_id (Some ''alice'') 1000 \<and>
   PStr ''bob notes'' \<in> fst ` set (retrieved_docs (retrieve_documents env0 bob_world chat_input)) \<and>
   (case snd (chat env0 bob_world ''alice notes'' ''hi'' (Some ''alice'') 1000) of
      Inl err \<Rightarrow> False
    | Inr r \<Rightarrow> bob_doc \<in> fst ` set (chat_results r))"
proof -
  have h1: "bob_doc \<in> set (documents bob_world)"
    by (simp add: bob_world_def world0_def)
  have h2: "length (documents bob_world) < 3"
    by (simp add: bob_world_def world0_def)
  have h3: "pid bob_doc \<noteq> chat_doc_id (Some ''alice'') 1000"
    by (simp add: bob_doc_def chat_doc_id_def or_default_def truthy_def)
  have h4: "get_default (payload bob_doc) ''text'' (PStr []) = PStr ''bob notes''"
    by (simp add: bob_doc_def get_default_def)
  have ok: "\<not> isl (snd (chat env0 bob_world ''alice notes'' ''hi'' (Some ''alice'') 1000))"
    by (simp add: chat_def bob_world_def bob_doc_def world0_def env0_def Let_def upsert_def
        search_def chat_doc_id_def or_default_def truthy_def str_nat.simps digit_char_def
        dot_def get_default_def)
  from retrieval_ignores_owner
    [OF h1, where e = env0 and s = chat_input and sid = "Some ''alice''" and now = 1000
      and contents = "''alice notes''" and message = "''hi''"]
    h1 h2 h3 h4 ok
  show ?thesis by (auto split: sum.splits)
qed

text \<open>
  The claim C1 as stated fails. The only mark of an owner on a stored document is the
  session id the chat endpoint writes; the agent state carries none. The endpoint, called
  in the session "alice" on a collection that holds a document stored in the session "bob",
  retrieves both documents, and the node \<open>retrieve_documents\<close> returns the text of the
  document of "bob" to a request that names no owner at all.
\<close>

theorem chat_returns_other_session:
  "(case snd (chat env0 bob_world ''alice notes'' ''hi'' (Some ''alice'') 1000) of
      Inl err \<Rightarrow> []
    | Inr r \<Rightarrow> sessions_of (chat_results r))
   = [Some (PStr ''alice''), Some (PStr ''bob'')] \<and>
   map fst (retrieved_docs (retrieve_documents env0 bob_world chat_input)) = [PStr ''bob notes'']"
  by (simp add: chat_def retrieve_documents_def bob_world_def bob_doc_def world0_def env0_def
      Let_def upsert_def search_def chat_doc_id_def or_default_def truthy_def str_nat.simps
      digit_char_def dot_def sessions_of_def get_default_def)

end
